theory Spec2Isabelle
  imports Complex_Main
begin

section \<open>Conventions of the embedding\<close>

text \<open>
  The development embeds the three service modules of the application:
  \<^verbatim>\<open>services/chain.ts\<close>, \<^verbatim>\<open>services/storage.ts\<close> and \<^verbatim>\<open>services/wallet.ts\<close>, with the
  data types of \<^verbatim>\<open>types.ts\<close>.

  \<^item> A JavaScript \<^verbatim>\<open>number\<close> is a \<^typ>\<open>real\<close>; a clock reading (milliseconds since the
    epoch) is an \<^typ>\<open>int\<close>. Rounding, \<^verbatim>\<open>NaN\<close> and the infinities of IEEE doubles are
    outside the model; a number that JSON can hold is never \<^verbatim>\<open>NaN\<close>.
  \<^item> A string is a \<^typ>\<open>string\<close>, a list of bytes. Every character class and literal of
    the source is ASCII, so a string with a character outside ASCII is rejected by the
    patterns below in both readings.
  \<^item> Everything the code reads from its environment is an argument: every clock
    reading, every draw of \<^verbatim>\<open>Math.random()\<close>, and the outcome of every network request,
    storage query and wallet call. The module-level \<^verbatim>\<open>priceCache\<close> is passed in and
    returned.
  \<^item> A response body is modelled at the shape the API documents, as far as the code
    reads it. A field the code guards with \<^verbatim>\<open>?.\<close> or \<^verbatim>\<open>||\<close> is an option. Where
    the code assigns to \<^verbatim>\<open>stats\<close> or to the cache and then reads a property of an element or
    a field that may be \<^verbatim>\<open>null\<close>, the element or field is an option and the read throws,
    after the assignment: an entry of the price body, a signature of the Solana list, the
    \<^verbatim>\<open>to\<close> of an EVM transaction, a Solana token account.
  \<^item> An exception is a value of \<open>exn\<close>; a function that can throw returns
    \<open>exn + 'a\<close>. The body of a \<^verbatim>\<open>try\<close> block returns an \<open>outcome\<close>, which keeps the
    state of the objects it mutates at the point where it stopped, and the \<^verbatim>\<open>catch\<close>
    clause is applied to it in the embedding of the enclosing function.
  \<^item> One call runs from start to end without another one in between, with one
    exception: \<^verbatim>\<open>fetchTokenPrices\<close> is given in two parts, before and after it awaits the
    response, so that two calls that overlap can be stated.
\<close>

datatype exn =
    Error string
  | TypeError
  | RangeError
  | SyntaxError
  | FetchRejected
  | Rejection string

datatype 'a outcome =
    Done 'a
  | Threw exn 'a

text \<open>
  The fetchers of \<^verbatim>\<open>chain.ts\<close> share one shape: \<^verbatim>\<open>try { ...; return stats } catch (e) {
  console.error(..., e); return stats }\<close>. Whether the block returned or threw, the caller
  gets the object as the block left it.
\<close>

fun settle :: "'a outcome \<Rightarrow> 'a" where
  "settle (Done st) = st"
| "settle (Threw e st) = st"

text \<open>
  \<^verbatim>\<open>await fetch(...)\<close>: the promise rejects, or resolves to a response with its \<^verbatim>\<open>ok\<close>
  flag and the outcome of \<^verbatim>\<open>await response.json()\<close>. \<open>None\<close> is a body the code cannot use:
  it is not JSON and \<^verbatim>\<open>json()\<close> rejects with a \<^verbatim>\<open>SyntaxError\<close>, or it is \<^verbatim>\<open>null\<close> and the
  first property read throws a \<^verbatim>\<open>TypeError\<close>. Either exception is thrown before anything
  of the response is used, and no \<^verbatim>\<open>catch\<close> clause looks at the exception, so the model
  has \<^verbatim>\<open>SyntaxError\<close> for both.
\<close>

datatype 'a Fetched =
    Rejected
  | Response bool "'a option"

section \<open>types.ts\<close>

datatype Blockchain = BTC | ETH | SOL | BNB

fun chain_code :: "Blockchain \<Rightarrow> string" where
  "chain_code BTC = ''BTC''"
| "chain_code ETH = ''ETH''"
| "chain_code SOL = ''SOL''"
| "chain_code BNB = ''BNB''"

text \<open>
  \<^verbatim>\<open>TokenAsset\<close>; \<^verbatim>\<open>logoUrl\<close> and \<^verbatim>\<open>valueUSD\<close> are optional and never assigned by the
  embedded code. The Solana fetcher copies \<^verbatim>\<open>uiAmount\<close> into \<^verbatim>\<open>balance\<close> as it is, so the
  balance can be \<^verbatim>\<open>undefined\<close> (\<open>None\<close>).
\<close>

record TokenAsset =
  symbol :: string
  token_name :: string
  token_balance :: "real option"
  decimals :: real
  contractAddress :: string
  token_chain :: Blockchain
  priceUSD :: "real option"

datatype TxType = Buy | Sell | Send | Receive

text \<open>\<^verbatim>\<open>LatestTransaction\<close>; a \<^verbatim>\<open>timestamp\<close> of \<open>None\<close> is \<^verbatim>\<open>NaN\<close>.\<close>

record LatestTransaction =
  hash :: string
  tx_timestamp :: "real option"
  tx_type :: TxType
  token :: TokenAsset
  amount :: real
  amountUSD :: real
  tx_from :: string
  tx_to :: string
  fee :: real

text \<open>
  One point of the history. The source's \<^verbatim>\<open>date\<close> is the text \<^verbatim>\<open>YYYY-MM-DD\<close> that
  \<^verbatim>\<open>toISOString().split('T')[0]\<close> gives for an instant: the calendar name of its UTC
  day. The model keeps the number of that day (days since 1970-01-01).
\<close>

record HistoryPoint =
  date :: int
  hvalue :: real

text \<open>
  \<^verbatim>\<open>WalletStats\<close>. \<^verbatim>\<open>firstTxDate\<close> is an ISO-8601 text in the source; the model keeps the
  instant it renders (milliseconds).
\<close>

record WalletStats =
  balance :: real
  txCount :: real
  firstTxDate :: int
  lastUpdated :: int
  history :: "HistoryPoint list"
  tokens :: "TokenAsset list"
  latestTransaction :: "LatestTransaction option"
  isSimulatedHistory :: "bool option"

record SocialLinks =
  twitter :: "string option"
  instagram :: "string option"
  threads :: "string option"
  reddit :: "string option"

record UserProfile =
  profile_id :: string
  username :: string
  address :: string
  chain :: Blockchain
  createdAt :: int
  logoUrl :: "string option"
  socials :: "SocialLinks option"
  cachedStats :: "WalletStats option"

section \<open>services/chain.ts\<close>

subsection \<open>Regular expressions\<close>

text \<open>
  The fragment of JavaScript regular expressions that \<^verbatim>\<open>isValidAddress\<close> uses: a literal,
  a character class given by its ranges, alternation, sequence and bounded repetition
  \<^verbatim>\<open>{lo,hi}\<close>. \<open>rests r s\<close> lists what is left of \<open>s\<close> after each way of matching \<open>r\<close>
  at its start; a pattern anchored with \<^verbatim>\<open>^\<close> and \<^verbatim>\<open>$\<close> matches when nothing can be left.
\<close>

datatype regex =
    Lit string
  | Cls "(char \<times> char) list"
  | Alt regex regex
  | Seq regex regex
  | Rep nat nat regex

definition in_range :: "char \<times> char \<Rightarrow> char \<Rightarrow> bool" where
  "in_range r c =
     ((of_char (fst r) :: nat) \<le> of_char c \<and> (of_char c :: nat) \<le> of_char (snd r))"

definition in_class :: "(char \<times> char) list \<Rightarrow> char \<Rightarrow> bool" where
  "in_class rs c = list_ex (\<lambda>r. in_range r c) rs"

fun reps :: "(string \<Rightarrow> string list) \<Rightarrow> nat \<Rightarrow> nat \<Rightarrow> string \<Rightarrow> string list" where
  "reps f lo 0 s = (if lo = 0 then [s] else [])"
| "reps f lo (Suc hi) s =
     (if lo = 0 then [s] else []) @ concat (map (reps f (lo - 1) hi) (f s))"

fun rests :: "regex \<Rightarrow> string \<Rightarrow> string list" where
  "rests (Lit p) s = (if take (length p) s = p then [drop (length p) s] else [])"
| "rests (Cls rs) s =
     (case s of [] \<Rightarrow> [] | c # cs \<Rightarrow> if in_class rs c then [cs] else [])"
| "rests (Alt a b) s = rests a s @ rests b s"
| "rests (Seq a b) s = concat (map (rests b) (rests a s))"
| "rests (Rep lo hi r) s = reps (\<lambda>t. rests r t) lo hi s"

text \<open>\<^verbatim>\<open>/^r$/.test(s)\<close>\<close>

definition regex_test :: "regex \<Rightarrow> string \<Rightarrow> bool" where
  "regex_test r s = ([] \<in> set (rests r s))"

text \<open>\<^verbatim>\<open>/^(1|3|bc1)[a-zA-Z0-9]{25,59}$/\<close>\<close>

definition btc_regex :: regex where
  "btc_regex =
     Seq (Alt (Lit ''1'') (Alt (Lit ''3'') (Lit ''bc1'')))
         (Rep 25 59 (Cls [(CHR ''a'', CHR ''z''), (CHR ''A'', CHR ''Z''), (CHR ''0'', CHR ''9'')]))"

text \<open>\<^verbatim>\<open>/^0x[a-fA-F0-9]{40}$/\<close>\<close>

definition evm_regex :: regex where
  "evm_regex =
     Seq (Lit ''0x'')
         (Rep 40 40 (Cls [(CHR ''a'', CHR ''f''), (CHR ''A'', CHR ''F''), (CHR ''0'', CHR ''9'')]))"

text \<open>\<^verbatim>\<open>/^[1-9A-HJ-NP-Za-km-z]{32,44}$/\<close>\<close>

definition sol_regex :: regex where
  "sol_regex =
     Rep 32 44 (Cls [(CHR ''1'', CHR ''9''), (CHR ''A'', CHR ''H''), (CHR ''J'', CHR ''N''),
                     (CHR ''P'', CHR ''Z''), (CHR ''a'', CHR ''k''), (CHR ''m'', CHR ''z'')])"

subsection \<open>isValidAddress (chain.ts, lines 65-74)\<close>

text \<open>
  \<^verbatim>\<open>if (!address) return false\<close>: the empty string is the only falsy string. The
  \<^verbatim>\<open>default\<close> branch of the switch is not reachable from the four values of the enum.
\<close>

definition isValidAddress :: "string \<Rightarrow> Blockchain \<Rightarrow> bool" where
  "isValidAddress addr c =
     (if addr = [] then False
      else (case c of
              BTC \<Rightarrow> regex_test btc_regex addr
            | ETH \<Rightarrow> regex_test evm_regex addr
            | BNB \<Rightarrow> regex_test evm_regex addr
            | SOL \<Rightarrow> regex_test sol_regex addr))"

subsection \<open>The price cache and fetchTokenPrices (chain.ts, lines 8-48)\<close>

record CacheEntry =
  price :: "real option"
  timestamp :: int

text \<open>
  The cache is an object used as a dictionary from coin ids to entries. A coin id is never
  the name of a property that objects inherit, so a key without an entry reads
  \<^verbatim>\<open>undefined\<close>.
\<close>

type_synonym PriceCache = "string \<Rightarrow> CacheEntry option"

definition PRICE_CACHE_TTL :: int where
  "PRICE_CACHE_TTL = 60 * 1000"

fun getCoingeckoId :: "Blockchain \<Rightarrow> string" where
  "getCoingeckoId BTC = ''bitcoin''"
| "getCoingeckoId ETH = ''ethereum''"
| "getCoingeckoId SOL = ''solana''"
| "getCoingeckoId BNB = ''binancecoin''"

text \<open>
  The body of the price API: the keys that \<^verbatim>\<open>Object.keys(data)\<close> lists, in its order, each
  with its entry \<^verbatim>\<open>data[key]\<close>. An entry is \<^verbatim>\<open>null\<close>, and reading its \<^verbatim>\<open>usd\<close> throws a
  \<^verbatim>\<open>TypeError\<close>, or it has a \<^verbatim>\<open>usd\<close> that is a number or is absent.
\<close>

datatype PriceEntry =
    NullEntry
  | Quote "real option"

type_synonym PriceBody = "(string \<times> PriceEntry) list"

text \<open>
  \<^verbatim>\<open>!priceCache[id] || (now - priceCache[id].timestamp > PRICE_CACHE_TTL)\<close>
\<close>

definition is_missing :: "PriceCache \<Rightarrow> int \<Rightarrow> string \<Rightarrow> bool" where
  "is_missing cache now i =
     (case cache i of None \<Rightarrow> True | Some e \<Rightarrow> now - timestamp e > PRICE_CACHE_TTL)"

text \<open>\<^verbatim>\<open>priceCache[id]?.price || 0\<close>\<close>

definition cached_price :: "PriceCache \<Rightarrow> string \<Rightarrow> real" where
  "cached_price cache i =
     (case cache i of
        None \<Rightarrow> 0
      | Some e \<Rightarrow> (case price e of None \<Rightarrow> 0 | Some p \<Rightarrow> if p = 0 then 0 else p))"

text \<open>
  \<^verbatim>\<open>Object.keys(data).forEach(key => { priceCache[key] = { price: data[key].usd, timestamp: now } })\<close>:
  the loop stops with a \<^verbatim>\<open>TypeError\<close> at the first key whose entry is \<^verbatim>\<open>null\<close>; the keys
  before it are stored, the keys after it are not.
\<close>

fun store_prices :: "int \<Rightarrow> PriceBody \<Rightarrow> PriceCache \<Rightarrow> PriceCache outcome" where
  "store_prices now [] cache = Done cache"
| "store_prices now ((k, entry) # others) cache =
     (case entry of
        NullEntry \<Rightarrow> Threw TypeError cache
      | Quote usd \<Rightarrow> store_prices now others (cache(k \<mapsto> \<lparr>price = usd, timestamp = now\<rparr>)))"

text \<open>
  What one call of \<^verbatim>\<open>fetchTokenPrices\<close> leaves: the record it returns, the cache, and
  the upstream request it issued, if any, as the list of ids in the request's
  \<^verbatim>\<open>ids=\<close> parameter.
\<close>

record PriceFetch =
  pf_prices :: "string \<Rightarrow> real option"
  pf_cache :: PriceCache
  pf_request :: "string list option"

text \<open>
  The \<^verbatim>\<open>try\<close> block of \<^verbatim>\<open>fetchTokenPrices\<close> (lines 29-37) from the response on, on the
  cache as it is when the body has arrived. Every exception in it is caught and logged,
  and the cache is as the exception left it.
\<close>

definition refresh_prices :: "PriceBody Fetched \<Rightarrow> int \<Rightarrow> PriceCache \<Rightarrow> PriceCache outcome" where
  "refresh_prices resp now cache =
     (case resp of
        Rejected \<Rightarrow> Threw FetchRejected cache
      | Response ok body \<Rightarrow>
          if ok then
            (case body of
               None \<Rightarrow> Threw SyntaxError cache
             | Some data \<Rightarrow> store_prices now data cache)
          else Done cache)"

text \<open>
  Lines 25-26, the part of \<^verbatim>\<open>fetchTokenPrices\<close> before it awaits: the ids to ask for, by
  the cache as it is when the call starts. The request is issued when there is one.
\<close>

definition missing_ids :: "PriceCache \<Rightarrow> int \<Rightarrow> string list \<Rightarrow> string list" where
  "missing_ids cache now ids = filter (is_missing cache now) ids"

text \<open>
  Lines 28-47, the part from the response on: \<open>cache\<close> is the cache as it is when the
  response has arrived (when no request was issued, as it is at the start).
\<close>

definition finish_prices ::
  "PriceBody Fetched \<Rightarrow> int \<Rightarrow> string list \<Rightarrow> PriceCache \<Rightarrow> string list \<Rightarrow> PriceFetch" where
  "finish_prices resp now missingIds cache ids =
     (let cache' = (if length missingIds > 0 then settle (refresh_prices resp now cache)
                    else cache)
      in \<lparr>pf_prices = foldl (\<lambda>result i. result(i \<mapsto> cached_price cache' i)) Map.empty ids,
          pf_cache = cache',
          pf_request = (if length missingIds > 0 then Some missingIds else None)\<rparr>)"

text \<open>One call that nothing interrupts: the cache does not change while it awaits.\<close>

definition fetchTokenPrices ::
  "PriceBody Fetched \<Rightarrow> int \<Rightarrow> PriceCache \<Rightarrow> string list \<Rightarrow> PriceFetch" where
  "fetchTokenPrices resp now cache ids =
     finish_prices resp now (missing_ids cache now ids) cache ids"

text \<open>
  Two calls that overlap, as when the dashboard starts \<^verbatim>\<open>fetchWalletStats\<close> for every row
  without awaiting: the second call starts while the first awaits its response, so both
  choose their ids by the same cache; then the first response arrives, then the second.
\<close>

definition overlapping_calls ::
  "PriceBody Fetched \<Rightarrow> int \<Rightarrow> string list \<Rightarrow> PriceBody Fetched \<Rightarrow> int \<Rightarrow> string list
     \<Rightarrow> PriceCache \<Rightarrow> PriceFetch \<times> PriceFetch" where
  "overlapping_calls resp1 now1 ids1 resp2 now2 ids2 cache =
     (let missing1 = missing_ids cache now1 ids1;
          missing2 = missing_ids cache now2 ids2;
          first = finish_prices resp1 now1 missing1 cache ids1;
          second = finish_prices resp2 now2 missing2 (pf_cache first) ids2
      in (first, second))"

text \<open>
  \<^verbatim>\<open>prices[id]\<close> for an id that was requested: the entry is there
  (lemma \<open>fetchTokenPrices_requested\<close>), so the second branch is never taken.
\<close>

definition price_of :: "(string \<Rightarrow> real option) \<Rightarrow> string \<Rightarrow> real" where
  "price_of prices i = (case prices i of Some p \<Rightarrow> p | None \<Rightarrow> 0)"

subsection \<open>What the fetchers read from their environment\<close>

text \<open>
  The clock readings of one call of a fetcher: \<^verbatim>\<open>new Date()\<close> and \<^verbatim>\<open>Date.now()\<close> in the
  initial \<^verbatim>\<open>stats\<close> object, \<^verbatim>\<open>Date.now()\<close> in \<^verbatim>\<open>fetchTokenPrices\<close>, and \<^verbatim>\<open>Date.now()\<close>
  in the Solana fetcher's fallback for a missing \<^verbatim>\<open>blockTime\<close>.
\<close>

record Clock =
  new_date :: int
  date_now :: int
  prices_now :: int
  sol_now :: int

text \<open>
  The built-ins \<^verbatim>\<open>parseFloat\<close> and \<^verbatim>\<open>parseInt\<close> are parameters of the model.
\<close>

record JsBuiltins =
  parseFloat :: "string \<Rightarrow> real"
  parseInt :: "string \<Rightarrow> real"

text \<open>The object every fetcher starts from (lines 93-101, 195-203, 276-284).\<close>

definition initial_stats :: "Clock \<Rightarrow> WalletStats" where
  "initial_stats clk =
     \<lparr>balance = 0, txCount = 0, firstTxDate = new_date clk, lastUpdated = date_now clk,
      history = [], tokens = [], latestTransaction = None, isSimulatedHistory = None\<rparr>"

text \<open>\<^verbatim>\<open>x || 0\<close> for an optional number.\<close>

definition num_or0 :: "real option \<Rightarrow> real" where
  "num_or0 x = (case x of None \<Rightarrow> 0 | Some v \<Rightarrow> if v = 0 then 0 else v)"

text \<open>\<^verbatim>\<open>x || d\<close> for an optional string: the empty string is falsy.\<close>

definition str_or :: "string option \<Rightarrow> string \<Rightarrow> string" where
  "str_or x d = (case x of None \<Rightarrow> d | Some s \<Rightarrow> if s = [] then d else s)"

text \<open>
  \<^verbatim>\<open>new Date(ms).toISOString()\<close>: a \<^verbatim>\<open>RangeError\<close> (\<open>None\<close>) when the time value is
  \<^verbatim>\<open>NaN\<close> or beyond 8.64e15 milliseconds from the epoch, and else the instant,
  truncated to whole milliseconds.
\<close>

definition toISOString :: "real option \<Rightarrow> int option" where
  "toISOString ms =
     (case ms of
        None \<Rightarrow> None
      | Some t \<Rightarrow>
          if \<bar>t\<bar> \<le> 8640000000000000
          then Some (if 0 \<le> t then \<lfloor>t\<rfloor> else \<lceil>t\<rceil>)
          else None)"

text \<open>\<^verbatim>\<open>s.toLowerCase()\<close> on ASCII.\<close>

definition toLowerCase :: "string \<Rightarrow> string" where
  "toLowerCase s =
     map (\<lambda>c. if in_range (CHR ''A'', CHR ''Z'') c then char_of (of_char c + (32::nat)) else c) s"

subsection \<open>fetchBTCStats (chain.ts, lines 92-187)\<close>

record BtcAddrStats =
  funded_txo_sum :: "real option"
  spent_txo_sum :: "real option"
  tx_count :: "real option"

record BtcSummary =
  chain_stats :: "BtcAddrStats option"
  mempool_stats :: "BtcAddrStats option"

text \<open>An output (\<^verbatim>\<open>scriptpubkey_address\<close>, \<^verbatim>\<open>value\<close>); an input's \<^verbatim>\<open>prevout\<close> is one too.\<close>

record BtcOut =
  scriptpubkey_address :: "string option"
  out_value :: real

text \<open>An input; \<^verbatim>\<open>prevout\<close> is \<^verbatim>\<open>null\<close> for a coinbase input.\<close>

record BtcIn =
  prevout :: "BtcOut option"

record BtcStatus =
  block_time :: "real option"

record BtcTx =
  txid :: string
  vin :: "BtcIn list"
  vout :: "BtcOut list"
  btc_fee :: "real option"
  status :: BtcStatus

datatype BtcTxsBody = NotArray | TxArray "BtcTx list"

record BtcNet =
  btc_summary :: "BtcSummary Fetched"
  btc_txs :: "BtcTxsBody Fetched"
  btc_price :: "PriceBody Fetched"

text \<open>\<^verbatim>\<open>data.chain_stats?.f || 0\<close>\<close>

definition stat_or0 :: "(BtcAddrStats \<Rightarrow> real option) \<Rightarrow> BtcAddrStats option \<Rightarrow> real" where
  "stat_or0 f st = (case st of None \<Rightarrow> 0 | Some s \<Rightarrow> num_or0 (f s))"

text \<open>
  Line 132: \<^verbatim>\<open>lastTx.vout.reduce((acc, out) => out.scriptpubkey_address === address ? acc + out.value : acc, 0)\<close>
\<close>

definition vout_amount :: "string \<Rightarrow> BtcOut list \<Rightarrow> real" where
  "vout_amount addr outs =
     foldl (\<lambda>acc out. if scriptpubkey_address out = Some addr then acc + out_value out else acc)
       0 outs"

text \<open>
  Line 134: the same fold over \<^verbatim>\<open>lastTx.vin\<close>, reading \<^verbatim>\<open>inp.prevout.scriptpubkey_address\<close>:
  a \<^verbatim>\<open>TypeError\<close> (\<open>None\<close>) at the first input whose \<^verbatim>\<open>prevout\<close> is \<^verbatim>\<open>null\<close>.
\<close>

fun vin_amount :: "string \<Rightarrow> real \<Rightarrow> BtcIn list \<Rightarrow> real option" where
  "vin_amount addr acc [] = Some acc"
| "vin_amount addr acc (inp # inps) =
     (case prevout inp of
        None \<Rightarrow> None
      | Some po \<Rightarrow>
          vin_amount addr
            (if scriptpubkey_address po = Some addr then acc + out_value po else acc) inps)"

text \<open>Line 128: \<^verbatim>\<open>lastTx.vout.some(out => out.scriptpubkey_address === address)\<close>\<close>

definition btc_isReceive :: "string \<Rightarrow> BtcTx \<Rightarrow> bool" where
  "btc_isReceive addr lastTx =
     list_ex (\<lambda>out. scriptpubkey_address out = Some addr) (vout lastTx)"

text \<open>Line 141: \<^verbatim>\<open>lastTx.vin[0]?.prevout?.scriptpubkey_address || 'Unknown'\<close>\<close>

definition btc_sender :: "BtcTx \<Rightarrow> string" where
  "btc_sender lastTx =
     str_or (case vin lastTx of
               [] \<Rightarrow> None
             | inp # _ \<Rightarrow> (case prevout inp of None \<Rightarrow> None | Some po \<Rightarrow> scriptpubkey_address po))
            ''Unknown''"

text \<open>
  Lines 145-146: the first output whose address is not \<^verbatim>\<open>address\<close>, and its address
  \<^verbatim>\<open>|| 'Multiple/Unknown'\<close>.
\<close>

definition btc_recipient :: "string \<Rightarrow> BtcTx \<Rightarrow> string" where
  "btc_recipient addr lastTx =
     str_or (case find (\<lambda>out. scriptpubkey_address out \<noteq> Some addr) (vout lastTx) of
               None \<Rightarrow> None
             | Some out \<Rightarrow> scriptpubkey_address out)
            ''Multiple/Unknown''"

text \<open>
  Lines 125-178, the block run when the transaction list is a non-empty array: the latest
  transaction is the first of the list, the oldest loaded one is the last.
\<close>

definition btc_latest_step ::
  "BtcNet \<Rightarrow> Clock \<Rightarrow> string \<Rightarrow> BtcTx list \<Rightarrow> WalletStats \<times> PriceCache
     \<Rightarrow> (WalletStats \<times> PriceCache) outcome" where
  "btc_latest_step net clk addr txData st =
     (case txData of
        [] \<Rightarrow> Done st
      | lastTx # _ \<Rightarrow>
          (let isReceive = btc_isReceive addr lastTx in
           case (if isReceive then Some (vout_amount addr (vout lastTx))
                 else vin_amount addr 0 (vin lastTx)) of
             None \<Rightarrow> Threw TypeError st
           | Some amt \<Rightarrow>
               (let feeBtc = (case btc_fee lastTx of
                                None \<Rightarrow> 0
                              | Some f \<Rightarrow> if f = 0 then 0 else f / 100000000);
                    sender = (if isReceive then btc_sender lastTx else addr);
                    recipient = (if isReceive then addr else btc_recipient addr lastTx);
                    pf = fetchTokenPrices (btc_price net) (prices_now clk) (snd st) [''bitcoin''];
                    btcPrice = price_of (pf_prices pf) ''bitcoin'';
                    stats = (fst st)\<lparr>latestTransaction := Some
                      \<lparr>hash = txid lastTx,
                       tx_timestamp = map_option (\<lambda>b. b * 1000) (block_time (status lastTx)),
                       tx_type = (if isReceive then Receive else Send),
                       token = \<lparr>symbol = ''BTC'', token_name = ''Bitcoin'', token_balance = Some 0,
                                decimals = 8, contractAddress = ''native'', token_chain = BTC,
                                priceUSD = Some btcPrice\<rparr>,
                       amount = amt / 100000000,
                       amountUSD = (amt / 100000000) * btcPrice,
                       tx_from = sender,
                       tx_to = recipient,
                       fee = feeBtc\<rparr>\<rparr>;
                    oldestLoaded = last txData
                in case toISOString (map_option (\<lambda>b. b * 1000) (block_time (status oldestLoaded))) of
                     None \<Rightarrow> Threw RangeError (stats, pf_cache pf)
                   | Some d \<Rightarrow> Done (stats\<lparr>firstTxDate := d\<rparr>, pf_cache pf))))"

text \<open>
  The \<^verbatim>\<open>try\<close> block (lines 107-181). \<open>Done\<close> is one of its \<^verbatim>\<open>return stats\<close>
  statements; \<open>Threw\<close> carries \<^verbatim>\<open>stats\<close> as the exception left it.
\<close>

definition btc_try ::
  "BtcNet \<Rightarrow> Clock \<Rightarrow> string \<Rightarrow> WalletStats \<times> PriceCache
     \<Rightarrow> (WalletStats \<times> PriceCache) outcome" where
  "btc_try net clk addr st =
     (case btc_summary net of
        Rejected \<Rightarrow> Threw FetchRejected st
      | Response ok body \<Rightarrow>
          if \<not> ok then Done st
          else (case body of
                  None \<Rightarrow> Threw SyntaxError st
                | Some data \<Rightarrow>
                    (let funded = stat_or0 funded_txo_sum (chain_stats data)
                                    + stat_or0 funded_txo_sum (mempool_stats data);
                         spent = stat_or0 spent_txo_sum (chain_stats data)
                                   + stat_or0 spent_txo_sum (mempool_stats data);
                         st1 = ((fst st)\<lparr>balance := (funded - spent) / 100000000,
                                          txCount := stat_or0 tx_count (chain_stats data)
                                                       + stat_or0 tx_count (mempool_stats data)\<rparr>,
                                snd st)
                     in case btc_txs net of
                          Rejected \<Rightarrow> Threw FetchRejected st1
                        | Response txok txbody \<Rightarrow>
                            if txok then
                              (case txbody of
                                 None \<Rightarrow> Threw SyntaxError st1
                               | Some NotArray \<Rightarrow> Done st1
                               | Some (TxArray txData) \<Rightarrow> btc_latest_step net clk addr txData st1)
                            else Done st1)))"

text \<open>
  \<^verbatim>\<open>fetchBTCStats\<close>: the validation before the \<^verbatim>\<open>try\<close>, then the \<^verbatim>\<open>try\<close> block with its
  \<^verbatim>\<open>catch\<close> clause.
\<close>

definition fetchBTCStats ::
  "BtcNet \<Rightarrow> Clock \<Rightarrow> PriceCache \<Rightarrow> string \<Rightarrow> exn + WalletStats \<times> PriceCache" where
  "fetchBTCStats net clk cache addr =
     (let stats = initial_stats clk in
      if \<not> isValidAddress addr BTC then Inr (stats, cache)
      else Inr (settle (btc_try net clk addr (stats, cache))))"

subsection \<open>fetchEVMStats (chain.ts, lines 190-272)\<close>

record EvmBalance =
  bal_status :: string
  bal_result :: string

text \<open>
  A transaction of the list; \<^verbatim>\<open>to\<close> is \<open>None\<close> when it is \<^verbatim>\<open>null\<close> or absent, and
  \<^verbatim>\<open>tx.to.toLowerCase()\<close> throws a \<^verbatim>\<open>TypeError\<close>.
\<close>

record EvmTx =
  evm_hash :: string
  nonce :: string
  timeStamp :: string
  evm_to :: "string option"
  evm_from :: string
  evm_value :: string
  gasUsed :: string
  gasPrice :: string

text \<open>The list; an element of \<open>None\<close> is \<^verbatim>\<open>null\<close>.\<close>

record EvmTxList =
  list_status :: string
  list_result :: "EvmTx option list"

text \<open>
  The four requests in the order the code issues them: balance, price, latest
  transaction (\<^verbatim>\<open>sort=desc\<close>), first transaction (\<^verbatim>\<open>sort=asc\<close>).
\<close>

record EvmNet =
  evm_balance :: "EvmBalance Fetched"
  evm_price :: "PriceBody Fetched"
  evm_latest :: "EvmTxList Fetched"
  evm_first :: "EvmTxList Fetched"

text \<open>Lines 211-217.\<close>

definition evm_balance_step :: "JsBuiltins \<Rightarrow> EvmBalance Fetched \<Rightarrow> WalletStats \<Rightarrow> WalletStats outcome" where
  "evm_balance_step js balRes stats =
     (case balRes of
        Rejected \<Rightarrow> Threw FetchRejected stats
      | Response ok body \<Rightarrow>
          if ok then
            (case body of
               None \<Rightarrow> Threw SyntaxError stats
             | Some balData \<Rightarrow>
                 if bal_status balData = ''1''
                 then Done (stats\<lparr>balance := parseFloat js (bal_result balData) / 1000000000000000000\<rparr>)
                 else Done stats)
          else Done stats)"

text \<open>
  Lines 224-254. Line 230 assigns \<^verbatim>\<open>txCount\<close> before the object of line 234 is built, so
  an exception in building it leaves the count assigned.
\<close>

definition evm_latest_step ::
  "JsBuiltins \<Rightarrow> EvmTxList Fetched \<Rightarrow> string \<Rightarrow> Blockchain \<Rightarrow> real \<Rightarrow> WalletStats
     \<Rightarrow> WalletStats outcome" where
  "evm_latest_step js txRes addr c nativePrice stats =
     (case txRes of
        Rejected \<Rightarrow> Threw FetchRejected stats
      | Response ok body \<Rightarrow>
          if ok then
            (case body of
               None \<Rightarrow> Threw SyntaxError stats
             | Some txData \<Rightarrow>
                 if list_status txData = ''1'' \<and> length (list_result txData) > 0 then
                   (case list_result txData of
                      [] \<Rightarrow> Done stats
                    | None # _ \<Rightarrow> Threw TypeError stats
                    | Some tx # _ \<Rightarrow>
                        (let stats1 = stats\<lparr>txCount := parseInt js (nonce tx) + 1\<rparr> in
                         case evm_to tx of
                           None \<Rightarrow> Threw TypeError stats1
                         | Some recipient \<Rightarrow>
                             Done (stats1
                               \<lparr>latestTransaction := Some
                                  \<lparr>hash = evm_hash tx,
                                   tx_timestamp = Some (parseInt js (timeStamp tx) * 1000),
                                   tx_type = (if toLowerCase recipient = toLowerCase addr
                                              then Receive else Send),
                                   token = \<lparr>symbol = chain_code c,
                                            token_name =
                                              (if c = ETH then ''Ethereum'' else ''BNB Chain''),
                                            token_balance = Some 0, decimals = 18,
                                            contractAddress = ''native'', token_chain = c,
                                            priceUSD = Some nativePrice\<rparr>,
                                   amount = parseFloat js (evm_value tx) / 1000000000000000000,
                                   amountUSD =
                                     (parseFloat js (evm_value tx) / 1000000000000000000)
                                       * nativePrice,
                                   tx_from = evm_from tx,
                                   tx_to = recipient,
                                   fee = (parseFloat js (gasUsed tx) * parseFloat js (gasPrice tx))
                                           / 1000000000000000000\<rparr>\<rparr>)))
                 else Done stats)
          else Done stats)"

text \<open>Lines 258-265.\<close>

definition evm_first_step :: "JsBuiltins \<Rightarrow> EvmTxList Fetched \<Rightarrow> WalletStats \<Rightarrow> WalletStats outcome" where
  "evm_first_step js firstTxRes stats =
     (case firstTxRes of
        Rejected \<Rightarrow> Threw FetchRejected stats
      | Response ok body \<Rightarrow>
          if ok then
            (case body of
               None \<Rightarrow> Threw SyntaxError stats
             | Some firstTxData \<Rightarrow>
                 if list_status firstTxData = ''1'' \<and> length (list_result firstTxData) > 0 then
                   (case list_result firstTxData of
                      [] \<Rightarrow> Done stats
                    | None # _ \<Rightarrow> Threw TypeError stats
                    | Some firstTx # _ \<Rightarrow>
                        (case toISOString (Some (parseInt js (timeStamp firstTx) * 1000)) of
                           None \<Rightarrow> Threw RangeError stats
                         | Some d \<Rightarrow> Done (stats\<lparr>firstTxDate := d\<rparr>)))
                 else Done stats)
          else Done stats)"

text \<open>The \<^verbatim>\<open>try\<close> block (lines 209-267): the four steps in sequence.\<close>

definition evm_try ::
  "JsBuiltins \<Rightarrow> EvmNet \<Rightarrow> Clock \<Rightarrow> string \<Rightarrow> Blockchain \<Rightarrow> WalletStats \<times> PriceCache
     \<Rightarrow> (WalletStats \<times> PriceCache) outcome" where
  "evm_try js net clk addr c st =
     (case evm_balance_step js (evm_balance net) (fst st) of
        Threw e s1 \<Rightarrow> Threw e (s1, snd st)
      | Done s1 \<Rightarrow>
          (let cgId = getCoingeckoId c;
               pf = fetchTokenPrices (evm_price net) (prices_now clk) (snd st) [cgId];
               nativePrice = price_of (pf_prices pf) cgId
           in case evm_latest_step js (evm_latest net) addr c nativePrice s1 of
                Threw e s2 \<Rightarrow> Threw e (s2, pf_cache pf)
              | Done s2 \<Rightarrow>
                  (case evm_first_step js (evm_first net) s2 of
                     Threw e s3 \<Rightarrow> Threw e (s3, pf_cache pf)
                   | Done s3 \<Rightarrow> Done (s3, pf_cache pf))))"

definition fetchEVMStats ::
  "JsBuiltins \<Rightarrow> EvmNet \<Rightarrow> Clock \<Rightarrow> PriceCache \<Rightarrow> string \<Rightarrow> Blockchain
     \<Rightarrow> exn + WalletStats \<times> PriceCache" where
  "fetchEVMStats js net clk cache addr c =
     (let stats = initial_stats clk in
      if \<not> isValidAddress addr c then Inr (stats, cache)
      else Inr (settle (evm_try js net clk addr c (stats, cache))))"

subsection \<open>fetchSolanaStats (chain.ts, lines 275-386)\<close>

text \<open>\<^verbatim>\<open>getBalance\<close>: \<^verbatim>\<open>balData.result?.value\<close>.\<close>

record SolBalanceResult =
  sol_value :: "real option"

record SolBalance =
  sol_result :: "SolBalanceResult option"

text \<open>
  \<^verbatim>\<open>getSignaturesForAddress\<close>: \<^verbatim>\<open>sigData.result\<close>, a list when it is there; an element
  of \<open>None\<close> is \<^verbatim>\<open>null\<close>, and reading its \<^verbatim>\<open>signature\<close> throws a \<^verbatim>\<open>TypeError\<close>.
\<close>

record SolSignature =
  signature :: string
  blockTime :: "real option"

record SolSignatures =
  sig_result :: "SolSignature option list option"

text \<open>
  \<^verbatim>\<open>getTokenAccountsByOwner\<close>: \<^verbatim>\<open>tokenData.result?.value\<close>, a list when it is there, of
  token accounts. The code reads \<^verbatim>\<open>t.account.data.parsed.info.tokenAmount.uiAmount\<close> of
  each: \<open>None\<close> is an account on which that read throws a \<^verbatim>\<open>TypeError\<close>. The field
  \<^verbatim>\<open>uiAmount\<close> is a number, or \<^verbatim>\<open>null\<close>, or absent.
\<close>

datatype UiAmount =
    AmountAbsent
  | AmountNull
  | Amount real

record SolTokenAmount =
  uiAmount :: UiAmount
  amount_decimals :: real

record SolTokenInfo =
  tokenAmount :: SolTokenAmount
  mint :: string

record SolTokens =
  tok_result :: "SolTokenInfo option list option"

text \<open>
  The four requests in the order the code issues them: balance, price, signatures,
  token accounts.
\<close>

record SolNet =
  sol_balance :: "SolBalance Fetched"
  sol_price :: "PriceBody Fetched"
  sol_sigs :: "SolSignatures Fetched"
  sol_tokens :: "SolTokens Fetched"

text \<open>Lines 292-301.\<close>

definition sol_balance_step :: "SolBalance Fetched \<Rightarrow> WalletStats \<Rightarrow> WalletStats outcome" where
  "sol_balance_step balRes stats =
     (case balRes of
        Rejected \<Rightarrow> Threw FetchRejected stats
      | Response ok body \<Rightarrow>
          if ok then
            (case body of
               None \<Rightarrow> Threw SyntaxError stats
             | Some balData \<Rightarrow>
                 Done (stats\<lparr>balance :=
                   (case sol_result balData of None \<Rightarrow> 0 | Some r \<Rightarrow> num_or0 (sol_value r))
                     / 1000000000\<rparr>))
          else Done stats)"

text \<open>
  Lines 309-348. Line 320 assigns \<^verbatim>\<open>txCount\<close> before the object of line 328 is built, so
  a \<^verbatim>\<open>null\<close> first element leaves the count assigned and no latest transaction.
\<close>

definition sol_sigs_step ::
  "SolSignatures Fetched \<Rightarrow> Clock \<Rightarrow> string \<Rightarrow> real \<Rightarrow> WalletStats \<Rightarrow> WalletStats outcome" where
  "sol_sigs_step sigRes clk addr solPrice stats =
     (case sigRes of
        Rejected \<Rightarrow> Threw FetchRejected stats
      | Response ok body \<Rightarrow>
          if ok then
            (case body of
               None \<Rightarrow> Threw SyntaxError stats
             | Some sigData \<Rightarrow>
                 (case sig_result sigData of
                    None \<Rightarrow> Done stats
                  | Some [] \<Rightarrow> Done stats
                  | Some (tx # _) \<Rightarrow>
                      (let stats1 = stats\<lparr>txCount := 100\<rparr> in
                       case tx of
                         None \<Rightarrow> Threw TypeError stats1
                       | Some sg \<Rightarrow>
                           Done (stats1
                             \<lparr>latestTransaction := Some
                                \<lparr>hash = signature sg,
                                 tx_timestamp = Some
                                   (case blockTime sg of
                                      None \<Rightarrow> real_of_int (sol_now clk)
                                    | Some b \<Rightarrow>
                                        if b = 0 then real_of_int (sol_now clk) else b * 1000),
                                 tx_type = Send,
                                 token = \<lparr>symbol = ''SOL'', token_name = ''Solana'',
                                          token_balance = Some 0, decimals = 9,
                                          contractAddress = ''native'', token_chain = SOL,
                                          priceUSD = Some solPrice\<rparr>,
                                 amount = 0,
                                 amountUSD = 0,
                                 tx_from = addr,
                                 tx_to = ''Solana Program/Wallet'',
                                 fee = 5 / 1000000\<rparr>\<rparr>))))
          else Done stats)"

text \<open>
  Lines 364-377, the callback of \<^verbatim>\<open>map\<close>: \<^verbatim>\<open>null\<close> when \<^verbatim>\<open>amount < 0.01\<close>. That holds
  of a number below 0.01 and of \<^verbatim>\<open>null\<close>; it does not hold of \<^verbatim>\<open>undefined\<close>, so an account
  without the field is kept, with a balance of \<^verbatim>\<open>undefined\<close>. The outer \<open>None\<close> is the
  \<^verbatim>\<open>TypeError\<close> at the first account that cannot be read.
\<close>

definition spl_token :: "SolTokenInfo \<Rightarrow> real option \<Rightarrow> TokenAsset" where
  "spl_token info bal =
     \<lparr>symbol = ''SPL'', token_name = ''Solana Token'', token_balance = bal,
      decimals = amount_decimals (tokenAmount info), contractAddress = mint info,
      token_chain = SOL, priceUSD = None\<rparr>"

fun sol_map_tokens :: "SolTokenInfo option list \<Rightarrow> TokenAsset option list option" where
  "sol_map_tokens [] = Some []"
| "sol_map_tokens (t # ts) =
     (case t of
        None \<Rightarrow> None
      | Some info \<Rightarrow>
          (case sol_map_tokens ts of
             None \<Rightarrow> None
           | Some mapped \<Rightarrow>
               Some ((case uiAmount (tokenAmount info) of
                        AmountNull \<Rightarrow> None
                      | Amount amt \<Rightarrow>
                          if amt < 1 / 100 then None else Some (spl_token info (Some amt))
                      | AmountAbsent \<Rightarrow> Some (spl_token info None)) # mapped)))"

text \<open>Lines 351-379; \<^verbatim>\<open>.filter(t => t !== null).slice(0, 10)\<close>.\<close>

definition sol_tokens_step :: "SolTokens Fetched \<Rightarrow> WalletStats \<Rightarrow> WalletStats outcome" where
  "sol_tokens_step tokenRes stats =
     (case tokenRes of
        Rejected \<Rightarrow> Threw FetchRejected stats
      | Response ok body \<Rightarrow>
          if ok then
            (case body of
               None \<Rightarrow> Threw SyntaxError stats
             | Some tokenData \<Rightarrow>
                 (case tok_result tokenData of
                    None \<Rightarrow> Done stats
                  | Some accounts \<Rightarrow>
                      (case sol_map_tokens accounts of
                         None \<Rightarrow> Threw TypeError stats
                       | Some mapped \<Rightarrow>
                           Done (stats\<lparr>tokens := take 10 (List.map_filter (\<lambda>t. t) mapped)\<rparr>))))
          else Done stats)"

text \<open>The \<^verbatim>\<open>try\<close> block (lines 290-381): the four steps in sequence.\<close>

definition sol_try ::
  "SolNet \<Rightarrow> Clock \<Rightarrow> string \<Rightarrow> WalletStats \<times> PriceCache
     \<Rightarrow> (WalletStats \<times> PriceCache) outcome" where
  "sol_try net clk addr st =
     (case sol_balance_step (sol_balance net) (fst st) of
        Threw e s1 \<Rightarrow> Threw e (s1, snd st)
      | Done s1 \<Rightarrow>
          (let pf = fetchTokenPrices (sol_price net) (prices_now clk) (snd st) [''solana''];
               solPrice = price_of (pf_prices pf) ''solana''
           in case sol_sigs_step (sol_sigs net) clk addr solPrice s1 of
                Threw e s2 \<Rightarrow> Threw e (s2, pf_cache pf)
              | Done s2 \<Rightarrow>
                  (case sol_tokens_step (sol_tokens net) s2 of
                     Threw e s3 \<Rightarrow> Threw e (s3, pf_cache pf)
                   | Done s3 \<Rightarrow> Done (s3, pf_cache pf))))"

definition fetchSolanaStats ::
  "SolNet \<Rightarrow> Clock \<Rightarrow> PriceCache \<Rightarrow> string \<Rightarrow> exn + WalletStats \<times> PriceCache" where
  "fetchSolanaStats net clk cache addr =
     (let stats = initial_stats clk in
      if \<not> isValidAddress addr SOL then Inr (stats, cache)
      else Inr (settle (sol_try net clk addr (stats, cache))))"

subsection \<open>fetchWalletStats (chain.ts, lines 390-424)\<close>

text \<open>
  Everything one call reads: the responses of the three fetchers (the router uses
  one), the clock readings of the fetcher, the built-ins, and in the history loop the
  reading of \<^verbatim>\<open>Date.now()\<close> and the draw of \<^verbatim>\<open>Math.random()\<close> of each iteration.
\<close>

record World =
  w_btc :: BtcNet
  w_evm :: EvmNet
  w_sol :: SolNet
  w_clock :: Clock
  w_js :: JsBuiltins
  loop_now :: "nat \<Rightarrow> int"
  random :: "nat \<Rightarrow> real"

text \<open>
  \<^verbatim>\<open>new Date(ms).toISOString().split('T')[0]\<close>, as the number of the UTC day of \<open>ms\<close>.
\<close>

definition iso_date :: "int \<Rightarrow> int" where
  "iso_date ms = ms div 86400000"

text \<open>
  The loop of lines 408-417, from iteration \<open>i\<close> on: \<^verbatim>\<open>unshift\<close> puts the new point
  first.
\<close>

function history_loop ::
  "World \<Rightarrow> nat \<Rightarrow> nat \<Rightarrow> real \<Rightarrow> HistoryPoint list \<Rightarrow> HistoryPoint list" where
  "history_loop w days i simulatedVal hist =
     (if i < days then
        history_loop w days (Suc i)
          (simulatedVal / (1 + ((random w i * (1 / 10)) - 5 / 100)))
          (\<lparr>date = iso_date (loop_now w i - int i * 24 * 60 * 60 * 1000),
            hvalue = max 0 simulatedVal\<rparr> # hist)
      else hist)"
  by pat_completeness auto
termination
  by (relation "measure (\<lambda>(w, days, i, v, h). days - i)") auto

text \<open>
  Line 419, \<^verbatim>\<open>history[history.length - 1].value = v\<close>: a \<^verbatim>\<open>TypeError\<close> on an empty
  array.
\<close>

definition set_last_value :: "HistoryPoint list \<Rightarrow> real \<Rightarrow> exn + HistoryPoint list" where
  "set_last_value hist v =
     (if hist = [] then Inl TypeError
      else Inr (hist[length hist - 1 := (hist ! (length hist - 1))\<lparr>hvalue := v\<rparr>]))"

definition fetchWalletStats ::
  "World \<Rightarrow> PriceCache \<Rightarrow> string \<Rightarrow> Blockchain \<Rightarrow> exn + WalletStats \<times> PriceCache" where
  "fetchWalletStats w cache addr c =
     (case (if c = BTC then fetchBTCStats (w_btc w) (w_clock w) cache addr
            else if c = SOL then fetchSolanaStats (w_sol w) (w_clock w) cache addr
            else fetchEVMStats (w_js w) (w_evm w) (w_clock w) cache addr c) of
        Inl e \<Rightarrow> Inl e
      | Inr (stats, cache') \<Rightarrow>
          (let currentTotalValueUSD = balance stats * cached_price cache' (getCoingeckoId c);
               days = 365;
               hist = history_loop w days 0 currentTotalValueUSD []
           in case set_last_value hist currentTotalValueUSD of
                Inl e \<Rightarrow> Inl e
              | Inr hist' \<Rightarrow>
                  Inr (stats\<lparr>history := hist', isSimulatedHistory := Some True\<rparr>, cache')))"

section \<open>services/storage.ts\<close>

text \<open>
  An awaited query of the storage client: it rejects with an exception, or resolves to
  the pair \<^verbatim>\<open>{ data, error }\<close>.
\<close>

record StorageError =
  message :: string
  details :: "string option"
  error_code :: "string option"

datatype 'a Query =
    Failed exn
  | Settled "'a option" "StorageError option"

text \<open>A row of the table \<^verbatim>\<open>profiles\<close>.\<close>

record Row =
  row_id :: string
  row_username :: string
  row_address :: string
  row_chain :: Blockchain
  created_at :: int
  logo_url :: "string option"
  row_socials :: "SocialLinks option"

text \<open>
  The mapping from the columns to the profile shape; \<^verbatim>\<open>Number(row.created_at)\<close> of a
  number is that number.
\<close>

definition profile_of_row :: "Row \<Rightarrow> UserProfile" where
  "profile_of_row r =
     \<lparr>profile_id = row_id r, username = row_username r, address = row_address r,
      chain = row_chain r, createdAt = created_at r, logoUrl = logo_url r,
      socials = row_socials r, cachedStats = None\<rparr>"

text \<open>
  A function of the store returns its value with the lines it wrote with
  \<^verbatim>\<open>console.error\<close>, each the list of its arguments.
\<close>

type_synonym Log = "string list list"

text \<open>\<^verbatim>\<open>e.message\<close> of a caught exception.\<close>

fun exn_message :: "exn \<Rightarrow> string" where
  "exn_message (Error m) = m"
| "exn_message (Rejection m) = m"
| "exn_message TypeError = ''TypeError''"
| "exn_message RangeError = ''RangeError''"
| "exn_message SyntaxError = ''SyntaxError''"
| "exn_message FetchRejected = ''Failed to fetch''"

text \<open>The \<^verbatim>\<open>try\<close> block of \<^verbatim>\<open>getAllProfiles\<close> (lines 7-29).\<close>

definition getAllProfiles_try :: "Row list Query \<Rightarrow> exn + UserProfile list \<times> Log" where
  "getAllProfiles_try q =
     (case q of
        Failed e \<Rightarrow> Inl e
      | Settled data err \<Rightarrow>
          (case err of
             Some e \<Rightarrow>
               Inr ([], [[''Supabase Error (getAllProfiles):'', message e, str_or (details e) []]])
           | None \<Rightarrow>
               Inr (map profile_of_row (case data of None \<Rightarrow> [] | Some rows \<Rightarrow> rows), [])))"

text \<open>\<^verbatim>\<open>getAllProfiles\<close> (lines 6-34), with its \<^verbatim>\<open>catch\<close> clause.\<close>

definition getAllProfiles :: "Row list Query \<Rightarrow> exn + UserProfile list \<times> Log" where
  "getAllProfiles q =
     (case getAllProfiles_try q of
        Inl e \<Rightarrow> Inr ([], [[''Supabase connection exception:'', exn_message e]])
      | Inr r \<Rightarrow> Inr r)"

text \<open>\<^verbatim>\<open>getProfileByUsername\<close> (lines 37-68); the query is the one for the given name.\<close>

definition getProfileByUsername_try :: "Row Query \<Rightarrow> exn + UserProfile option \<times> Log" where
  "getProfileByUsername_try q =
     (case q of
        Failed e \<Rightarrow> Inl e
      | Settled data err \<Rightarrow>
          (case err of
             Some e \<Rightarrow>
               Inr (None, if error_code e \<noteq> Some ''PGRST116''
                          then [[''Supabase Error (getProfile):'', message e]] else [])
           | None \<Rightarrow>
               (case data of
                  None \<Rightarrow> Inr (None, [])
                | Some r \<Rightarrow> Inr (Some (profile_of_row r), []))))"

definition getProfileByUsername :: "Row Query \<Rightarrow> exn + UserProfile option \<times> Log" where
  "getProfileByUsername q =
     (case getProfileByUsername_try q of
        Inl e \<Rightarrow> Inr (None, [[exn_message e]])
      | Inr r \<Rightarrow> Inr r)"

text \<open>The argument of \<^verbatim>\<open>createProfile\<close>: a profile without \<^verbatim>\<open>id\<close> and \<^verbatim>\<open>createdAt\<close>.\<close>

record ProfileFields =
  new_username :: string
  new_address :: string
  new_chain :: Blockchain
  new_logoUrl :: "string option"
  new_socials :: "SocialLinks option"

text \<open>
  What one call of \<^verbatim>\<open>createProfile\<close> reads: the text \<^verbatim>\<open>Math.random().toString(36)\<close>,
  the reading of \<^verbatim>\<open>Date.now()\<close>, and the store's answer to the insertion of a row.
\<close>

record CreateEnv =
  random36 :: string
  create_now :: int
  insert_row :: "Row \<Rightarrow> Row Query"

text \<open>\<^verbatim>\<open>s.substr(start, len)\<close> for a start within the string or at its end.\<close>

definition substr :: "string \<Rightarrow> nat \<Rightarrow> nat \<Rightarrow> string" where
  "substr s start len = take len (drop start s)"

text \<open>Lines 72-80: the row the call inserts.\<close>

definition newProfile :: "CreateEnv \<Rightarrow> ProfileFields \<Rightarrow> Row" where
  "newProfile env p =
     \<lparr>row_id = substr (random36 env) 2 9,
      row_username = new_username p,
      row_address = new_address p,
      row_chain = new_chain p,
      created_at = create_now env,
      logo_url = (case new_logoUrl p of None \<Rightarrow> None | Some u \<Rightarrow> if u = [] then None else Some u),
      row_socials = (case new_socials p of
                       None \<Rightarrow> Some \<lparr>twitter = None, instagram = None, threads = None, reddit = None\<rparr>
                     | Some so \<Rightarrow> Some so)\<rparr>"

text \<open>
  \<^verbatim>\<open>createProfile\<close> (lines 71-102). There is no \<^verbatim>\<open>try\<close>: a rejected query propagates,
  and so does the \<^verbatim>\<open>TypeError\<close> of \<^verbatim>\<open>data.id\<close> on a \<^verbatim>\<open>null\<close> \<^verbatim>\<open>data\<close>. The thrown
  message is \<^verbatim>\<open>error.message || 'Failed to create profile'\<close>.
\<close>

definition createProfile :: "CreateEnv \<Rightarrow> ProfileFields \<Rightarrow> exn + UserProfile \<times> Log" where
  "createProfile env p =
     (case insert_row env (newProfile env p) of
        Failed e \<Rightarrow> Inl e
      | Settled data err \<Rightarrow>
          (case err of
             Some e \<Rightarrow> Inl (Error (if message e = [] then ''Failed to create profile'' else message e))
           | None \<Rightarrow>
               (case data of
                  None \<Rightarrow> Inl TypeError
                | Some r \<Rightarrow> Inr (profile_of_row r, []))))"

section \<open>services/wallet.ts\<close>

text \<open>
  The injected EVM provider, as far as \<^verbatim>\<open>signEVM\<close> uses it: the outcome of
  \<^verbatim>\<open>provider.getSigner()\<close>, and of the signer's \<^verbatim>\<open>getAddress()\<close> and
  \<^verbatim>\<open>signMessage(message)\<close>.
\<close>

record Signer =
  getAddress :: "exn + string"
  signMessage :: "string \<Rightarrow> exn + string"

record EvmProvider =
  getSigner :: "exn + Signer"

text \<open>
  \<^verbatim>\<open>signEVM\<close>, the \<^verbatim>\<open>try\<close> block (lines 73-87). \<^verbatim>\<open>ethers.verifyMessage\<close> is a parameter: it
  returns the address recovered from the signature, or throws.
\<close>

definition signEVM_try ::
  "(string \<Rightarrow> string \<Rightarrow> exn + string) \<Rightarrow> EvmProvider \<Rightarrow> string \<Rightarrow> string \<Rightarrow> exn + bool" where
  "signEVM_try verifyMessage eth addr msg =
     (case getSigner eth of
        Inl e \<Rightarrow> Inl e
      | Inr signer \<Rightarrow>
          (case getAddress signer of
             Inl e \<Rightarrow> Inl e
           | Inr signerAddress \<Rightarrow>
               if toLowerCase signerAddress \<noteq> toLowerCase addr
               then Inl (Error ''Wallet mismatch. Please switch to the correct account in your wallet.'')
               else (case signMessage signer msg of
                       Inl e \<Rightarrow> Inl e
                     | Inr sg \<Rightarrow>
                         (case verifyMessage msg sg of
                            Inl e \<Rightarrow> Inl e
                          | Inr recoveredAddress \<Rightarrow>
                              Inr (toLowerCase recoveredAddress = toLowerCase addr)))))"

text \<open>\<^verbatim>\<open>signEVM\<close> (lines 70-92); the first argument is \<^verbatim>\<open>window.ethereum\<close>.\<close>

definition signEVM ::
  "(string \<Rightarrow> string \<Rightarrow> exn + string) \<Rightarrow> EvmProvider option \<Rightarrow> string \<Rightarrow> string \<Rightarrow> exn + bool" where
  "signEVM verifyMessage ethereum addr msg =
     (case ethereum of
        None \<Rightarrow> Inl (Error ''Wallet disconnected.'')
      | Some eth \<Rightarrow>
          (case signEVM_try verifyMessage eth addr msg of
             Inl e \<Rightarrow> Inl (Error ''Signature rejected or failed.'')
           | Inr b \<Rightarrow> Inr b))"

text \<open>A JavaScript value, as far as its truthiness goes; a byte array is an object.\<close>

datatype JsValue =
    Undefined
  | Null
  | Boolean bool
  | Number real
  | String string
  | Bytes "nat list"

fun truthy :: "JsValue \<Rightarrow> bool" where
  "truthy Undefined = False"
| "truthy Null = False"
| "truthy (Boolean b) = b"
| "truthy (Number n) = (n \<noteq> 0)"
| "truthy (String s) = (s \<noteq> [])"
| "truthy (Bytes bs) = True"

text \<open>
  The Solana provider: \<^verbatim>\<open>signMessage(encodedMessage, "utf8")\<close> rejects, or resolves to a
  value that is \<^verbatim>\<open>null\<close> or \<^verbatim>\<open>undefined\<close> (\<open>None\<close>) or an object with the value of its
  \<^verbatim>\<open>signature\<close> property.
\<close>

record SignedMessage =
  signed_signature :: JsValue

record SolProvider =
  sol_signMessage :: "nat list \<Rightarrow> string \<Rightarrow> exn + SignedMessage option"

record Phantom =
  phantom_solana :: "SolProvider option"

record Window =
  solana :: "SolProvider option"
  phantom :: "Phantom option"

text \<open>\<^verbatim>\<open>new TextEncoder().encode(message)\<close>\<close>

definition encode :: "string \<Rightarrow> nat list" where
  "encode msg = map of_char msg"

text \<open>\<^verbatim>\<open>window.solana || window.phantom?.solana\<close>\<close>

definition solana_provider :: "Window \<Rightarrow> SolProvider option" where
  "solana_provider win =
     (case solana win of
        Some p \<Rightarrow> Some p
      | None \<Rightarrow> (case phantom win of None \<Rightarrow> None | Some ph \<Rightarrow> phantom_solana ph))"

text \<open>\<^verbatim>\<open>signSolana\<close>, the \<^verbatim>\<open>try\<close> block (lines 125-135).\<close>

definition signSolana_try :: "SolProvider \<Rightarrow> string \<Rightarrow> string \<Rightarrow> exn + bool" where
  "signSolana_try provider addr msg =
     (case sol_signMessage provider (encode msg) ''utf8'' of
        Inl e \<Rightarrow> Inl e
      | Inr signedMessage \<Rightarrow>
          (case signedMessage of
             None \<Rightarrow> Inl TypeError
           | Some sm \<Rightarrow> Inr (truthy (signed_signature sm))))"

text \<open>\<^verbatim>\<open>signSolana\<close> (lines 120-139).\<close>

definition signSolana :: "Window \<Rightarrow> string \<Rightarrow> string \<Rightarrow> exn + bool" where
  "signSolana win addr msg =
     (case solana_provider win of
        None \<Rightarrow> Inl (Error ''Wallet disconnected.'')
      | Some provider \<Rightarrow>
          (case signSolana_try provider addr msg of
             Inl e \<Rightarrow> Inl (Error ''Signature rejected.'')
           | Inr b \<Rightarrow> Inr b))"

section \<open>The address formats in the specification's words\<close>

text \<open>
  The alphabets, written out: letters and digits; the hexadecimal digits; and the
  base58 alphabet (letters and digits without \<^verbatim>\<open>0\<close>, \<^verbatim>\<open>O\<close>, \<^verbatim>\<open>I\<close> and \<^verbatim>\<open>l\<close>).
\<close>

definition alnum_chars :: string where
  "alnum_chars = ''abcdefghijklmnopqrstuvwxyzABCDEFGHIJKLMNOPQRSTUVWXYZ0123456789''"
definition hex_digits :: string where
  "hex_digits = ''0123456789abcdefABCDEF''"
definition base58_alphabet :: string where
  "base58_alphabet = ''123456789ABCDEFGHJKLMNPQRSTUVWXYZabcdefghijkmnopqrstuvwxyz''"

text \<open>
  BTC: one of the prefixes \<^verbatim>\<open>1\<close> (legacy), \<^verbatim>\<open>3\<close> (P2SH) and \<^verbatim>\<open>bc1\<close> (bech32), then 25
  to 59 letters or digits. EVM: \<^verbatim>\<open>0x\<close>, then exactly 40 hexadecimal digits. SOL: 32 to
  44 characters of the base58 alphabet.
\<close>

definition btc_prefixes :: "string list" where
  "btc_prefixes = [''1'', ''3'', ''bc1'']"

definition btc_pattern :: "string \<Rightarrow> bool" where
  "btc_pattern a =
     list_ex (\<lambda>p. take (length p) a = p \<and> 25 + length p \<le> length a \<and> length a \<le> 59 + length p
                 \<and> list_all (\<lambda>c. c \<in> set alnum_chars) (drop (length p) a)) btc_prefixes"

definition evm_pattern :: "string \<Rightarrow> bool" where
  "evm_pattern a =
     (take 2 a = ''0x'' \<and> length a = 42 \<and> list_all (\<lambda>c. c \<in> set hex_digits) (drop 2 a))"

definition sol_pattern :: "string \<Rightarrow> bool" where
  "sol_pattern a =
     (32 \<le> length a \<and> length a \<le> 44 \<and> list_all (\<lambda>c. c \<in> set base58_alphabet) a)"

section \<open>Notions the statements use\<close>

text \<open>
  A call of \<^verbatim>\<open>fetchTokenPrices\<close> issues an upstream request that asks for the id.
\<close>

definition requests_id :: "PriceFetch \<Rightarrow> string \<Rightarrow> bool" where
  "requests_id pf i = (case pf_request pf of None \<Rightarrow> False | Some ids \<Rightarrow> i \<in> set ids)"

text \<open>
  The price API answers a request with the id: the response is ok, its body can be used,
  and the id is one of its keys, with no \<^verbatim>\<open>null\<close> entry at that key or at a key before it.
\<close>

definition answers_id :: "PriceBody Fetched \<Rightarrow> string \<Rightarrow> bool" where
  "answers_id resp i =
     (case resp of
        Rejected \<Rightarrow> False
      | Response ok body \<Rightarrow>
          ok \<and> (case body of
                  None \<Rightarrow> False
                | Some data \<Rightarrow> i \<in> set (map fst (takeWhile (\<lambda>kv. snd kv \<noteq> NullEntry) data))))"

text \<open>A request fails: the network fails, or the response is not ok.\<close>

definition failed :: "'a Fetched \<Rightarrow> bool" where
  "failed r = (case r of Rejected \<Rightarrow> True | Response ok body \<Rightarrow> \<not> ok)"

text \<open>
  A request does not throw: the fetch resolves and, when the response is ok, its body
  can be used.
\<close>

definition settles :: "'a Fetched \<Rightarrow> bool" where
  "settles r =
     (case r of Rejected \<Rightarrow> False | Response ok body \<Rightarrow> (if ok then body \<noteq> None else True))"

text \<open>
  The signatures request returns a signature: the response is ok, its body can be used,
  and its \<^verbatim>\<open>result\<close> is a list that is not empty.
\<close>

definition returns_signature :: "SolSignatures Fetched \<Rightarrow> bool" where
  "returns_signature r =
     (case r of
        Rejected \<Rightarrow> False
      | Response ok body \<Rightarrow>
          ok \<and> (case body of
                  None \<Rightarrow> False
                | Some sigData \<Rightarrow>
                    (case sig_result sigData of None \<Rightarrow> False | Some sigs \<Rightarrow> sigs \<noteq> [])))"

text \<open>The stats object a fetcher returned, if it returned.\<close>

definition stats_of :: "exn + WalletStats \<times> PriceCache \<Rightarrow> WalletStats option" where
  "stats_of r = (case r of Inl e \<Rightarrow> None | Inr st \<Rightarrow> Some (fst st))"

text \<open>The sum of the outputs that pay an address.\<close>

definition paid_to :: "string \<Rightarrow> BtcOut list \<Rightarrow> real" where
  "paid_to addr outs =
     sum_list (map out_value (filter (\<lambda>out. scriptpubkey_address out = Some addr) outs))"

text \<open>The profile \<^verbatim>\<open>createProfile\<close> returned, if it returned.\<close>

definition created :: "exn + UserProfile \<times> Log \<Rightarrow> UserProfile option" where
  "created r = (case r of Inl e \<Rightarrow> None | Inr pl \<Rightarrow> Some (fst pl))"

section \<open>Example inputs\<close>

definition example_clock :: Clock where
  "example_clock =
     \<lparr>new_date = 1700006399000, date_now = 1700006399001, prices_now = 1700006399400,
      sol_now = 1700006399600\<rparr>"

definition example_sol_address :: string where
  "example_sol_address = ''11111111111111111111111111111111''"

definition example_btc_address :: string where
  "example_btc_address = ''1BoatSLRHtKNngkdXEeobR76b53LETtpyT''"

definition sol_net_one_signature :: SolNet where
  "sol_net_one_signature =
     \<lparr>sol_balance = Response True (Some \<lparr>sol_result = Some \<lparr>sol_value = Some 2000000000\<rparr>\<rparr>),
      sol_price = Rejected,
      sol_sigs = Response True
        (Some \<lparr>sig_result =
                 Some [Some \<lparr>signature = ''5h6xBEauJ3PK6SWC'', blockTime = Some 1700000000\<rparr>]\<rparr>),
      sol_tokens = Response True (Some \<lparr>tok_result = Some []\<rparr>)\<rparr>"

text \<open>The same, with no signature in the list: an address without transactions.\<close>

definition sol_net_no_signature :: SolNet where
  "sol_net_no_signature =
     \<lparr>sol_balance = Response True (Some \<lparr>sol_result = Some \<lparr>sol_value = Some 2000000000\<rparr>\<rparr>),
      sol_price = Rejected,
      sol_sigs = Response True (Some \<lparr>sig_result = Some []\<rparr>),
      sol_tokens = Response True (Some \<lparr>tok_result = Some []\<rparr>)\<rparr>"

text \<open>The same, with a list whose one element is \<^verbatim>\<open>null\<close>.\<close>

definition sol_net_null_signature :: SolNet where
  "sol_net_null_signature =
     \<lparr>sol_balance = Response True (Some \<lparr>sol_result = Some \<lparr>sol_value = Some 2000000000\<rparr>\<rparr>),
      sol_price = Rejected,
      sol_sigs = Response True (Some \<lparr>sig_result = Some [None]\<rparr>),
      sol_tokens = Response True (Some \<lparr>tok_result = Some []\<rparr>)\<rparr>"

text \<open>The balance request succeeds, the two later data requests fail.\<close>

definition sol_net_balance_only :: SolNet where
  "sol_net_balance_only =
     \<lparr>sol_balance = Response True (Some \<lparr>sol_result = Some \<lparr>sol_value = Some 2000000000\<rparr>\<rparr>),
      sol_price = Rejected, sol_sigs = Response False None, sol_tokens = Rejected\<rparr>"

definition example_evm_address :: string where
  "example_evm_address = ''0xABCDEF0123456789abcdef0123456789ABCDEF01''"

definition evm_net_balance_only :: EvmNet where
  "evm_net_balance_only =
     \<lparr>evm_balance = Response True
        (Some \<lparr>bal_status = ''1'', bal_result = ''2000000000000000000''\<rparr>),
      evm_price = Rejected, evm_latest = Response False None, evm_first = Rejected\<rparr>"

text \<open>
  The balance request fails at the network; every later request would be answered, with
  one transaction.
\<close>

definition example_evm_tx :: EvmTx where
  "example_evm_tx =
     \<lparr>evm_hash = ''0x88df016429689c079f3b2f6ad39fa052532c56795b733da78a91ebe6a713944b'',
      nonce = ''7'', timeStamp = ''1700000000'', evm_to = Some example_evm_address,
      evm_from = ''0x1111111111111111111111111111111111111111'',
      evm_value = ''1000000000000000000'', gasUsed = ''21000'', gasPrice = ''1000000000''\<rparr>"

definition evm_net_balance_rejected :: EvmNet where
  "evm_net_balance_rejected =
     \<lparr>evm_balance = Rejected, evm_price = Rejected,
      evm_latest = Response True
        (Some \<lparr>list_status = ''1'', list_result = [Some example_evm_tx]\<rparr>),
      evm_first = Response True
        (Some \<lparr>list_status = ''1'', list_result = [Some example_evm_tx]\<rparr>)\<rparr>"

definition sol_net_balance_rejected :: SolNet where
  "sol_net_balance_rejected = sol_net_one_signature\<lparr>sol_balance := Rejected\<rparr>"

text \<open>A text that is the address of no chain.\<close>

definition no_address :: string where
  "no_address = ''not an address''"

text \<open>A \<^verbatim>\<open>parseFloat\<close> and \<^verbatim>\<open>parseInt\<close> for texts of decimal digits.\<close>

definition decimal :: "string \<Rightarrow> real" where
  "decimal s = foldl (\<lambda>acc c. 10 * acc + real (of_char c - (48::nat))) 0 s"

definition decimal_js :: JsBuiltins where
  "decimal_js = \<lparr>parseFloat = decimal, parseInt = decimal\<rparr>"

text \<open>Answers of the price API: with the price of bitcoin; with a \<^verbatim>\<open>null\<close> entry before it.\<close>

definition bitcoin_quote :: "PriceBody Fetched" where
  "bitcoin_quote = Response True (Some [(''bitcoin'', Quote (Some 50000))])"

definition quote_after_null :: "PriceBody Fetched" where
  "quote_after_null =
     Response True (Some [(''ethereum'', NullEntry), (''bitcoin'', Quote (Some 50000))])"

definition example_js :: JsBuiltins where
  "example_js = \<lparr>parseFloat = (\<lambda>s. 0), parseInt = (\<lambda>s. 0)\<rparr>"

definition btc_net_down :: BtcNet where
  "btc_net_down = \<lparr>btc_summary = Rejected, btc_txs = Rejected, btc_price = Rejected\<rparr>"

definition evm_net_down :: EvmNet where
  "evm_net_down =
     \<lparr>evm_balance = Response False None, evm_price = Rejected, evm_latest = Response False None,
      evm_first = Rejected\<rparr>"

definition sol_net_down :: SolNet where
  "sol_net_down =
     \<lparr>sol_balance = Response False None, sol_price = Rejected, sol_sigs = Response False None,
      sol_tokens = Rejected\<rparr>"

definition btc_summary_3_tx :: BtcSummary where
  "btc_summary_3_tx =
     \<lparr>chain_stats = Some \<lparr>funded_txo_sum = Some 150000000, spent_txo_sum = Some 50000000,
                           tx_count = Some 3\<rparr>,
      mempool_stats = None\<rparr>"

definition btc_net_txs_fail :: BtcNet where
  "btc_net_txs_fail =
     \<lparr>btc_summary = Response True (Some btc_summary_3_tx), btc_txs = Rejected,
      btc_price = Rejected\<rparr>"

text \<open>
  A transaction that spends 5 BTC of the example address and pays 3 BTC back to it.
\<close>

definition self_transfer_tx :: BtcTx where
  "self_transfer_tx =
     \<lparr>txid = ''4a5e1e4baab89f3a32518a88c31bc87f618f76673e2cc77ab2127b7afdeda33b'',
      vin = [\<lparr>prevout = Some \<lparr>scriptpubkey_address = Some example_btc_address,
                               out_value = 500000000\<rparr>\<rparr>],
      vout = [\<lparr>scriptpubkey_address = Some ''3J98t1WpEZ73CNmQviecrnyiWrnqRhWNLy'',
               out_value = 190000000\<rparr>,
              \<lparr>scriptpubkey_address = Some example_btc_address, out_value = 300000000\<rparr>],
      btc_fee = Some 10000000,
      status = \<lparr>block_time = Some 1700000000\<rparr>\<rparr>"

definition btc_net_self_transfer :: BtcNet where
  "btc_net_self_transfer =
     \<lparr>btc_summary = Response True (Some btc_summary_3_tx),
      btc_txs = Response True (Some (TxArray [self_transfer_tx])),
      btc_price = bitcoin_quote\<rparr>"

text \<open>
  A call during which UTC midnight passes: \<^verbatim>\<open>Date.now()\<close> is 2023-11-14T23:59:59.999Z in
  the first iteration of the history loop and 2023-11-15T00:00:00.000Z from the second on.
\<close>

definition midnight_world :: World where
  "midnight_world =
     \<lparr>w_btc = btc_net_down, w_evm = evm_net_down, w_sol = sol_net_down,
      w_clock = example_clock, w_js = example_js,
      loop_now = (\<lambda>i. if i = 0 then 1700006399999 else 1700006400000),
      random = (\<lambda>i. 1 / 2)\<rparr>"

text \<open>A store that accepts every row and returns it.\<close>

definition echo_store :: "Row \<Rightarrow> Row Query" where
  "echo_store r = Settled (Some r) None"

definition example_fields :: ProfileFields where
  "example_fields =
     \<lparr>new_username = ''alice_1'', new_address = ''0xABCDEF0123456789abcdef0123456789ABCDEF01'',
      new_chain = ETH, new_logoUrl = None, new_socials = None\<rparr>"

definition nameless_error :: StorageError where
  "nameless_error = \<lparr>message = [], details = None, error_code = None\<rparr>"

definition duplicate_error :: StorageError where
  "duplicate_error =
     \<lparr>message = ''duplicate key value violates unique constraint'', details = None,
      error_code = Some ''23505''\<rparr>"

definition verify_other :: "string \<Rightarrow> string \<Rightarrow> exn + string" where
  "verify_other msg sg = Inr ''0x1111111111111111111111111111111111111111''"

definition example_signer :: Signer where
  "example_signer =
     \<lparr>getAddress = Inr ''0xabcdef0123456789abcdef0123456789abcdef01'',
      signMessage = (\<lambda>msg. Inr ''0xsignature'')\<rparr>"

text \<open>A provider that answers every request with an empty byte array as signature.\<close>

definition careless_provider :: SolProvider where
  "careless_provider = \<lparr>sol_signMessage = (\<lambda>bytes enc. Inr (Some \<lparr>signed_signature = Bytes []\<rparr>))\<rparr>"

section \<open>Theorems: isValidAddress\<close>

lemma hex_class:
  "in_class [(CHR ''a'', CHR ''f''), (CHR ''A'', CHR ''F''), (CHR ''0'', CHR ''9'')] c = (c \<in> set hex_digits)"
proof (cases c)
  case (Char b0 b1 b2 b3 b4 b5 b6 b7)
  then show ?thesis
    by (cases b0; cases b1; cases b2; cases b3; cases b4; cases b5; cases b6; cases b7;
        simp add: in_class_def in_range_def hex_digits_def)
qed

lemma alnum_class:
  "in_class [(CHR ''a'', CHR ''z''), (CHR ''A'', CHR ''Z''), (CHR ''0'', CHR ''9'')] c = (c \<in> set alnum_chars)"
proof (cases c)
  case (Char b0 b1 b2 b3 b4 b5 b6 b7)
  then show ?thesis
    by (cases b0; cases b1; cases b2; cases b3; cases b4; cases b5; cases b6; cases b7;
        simp add: in_class_def in_range_def alnum_chars_def)
qed

lemma base58_class:
  "in_class [(CHR ''1'', CHR ''9''), (CHR ''A'', CHR ''H''), (CHR ''J'', CHR ''N''),
                     (CHR ''P'', CHR ''Z''), (CHR ''a'', CHR ''k''), (CHR ''m'', CHR ''z'')] c = (c \<in> set base58_alphabet)"
proof (cases c)
  case (Char b0 b1 b2 b3 b4 b5 b6 b7)
  then show ?thesis
    by (cases b0; cases b1; cases b2; cases b3; cases b4; cases b5; cases b6; cases b7;
        simp add: in_class_def in_range_def base58_alphabet_def)
qed

lemma rests_Cls_iff: "t \<in> set (rests (Cls rs) s) \<longleftrightarrow> (\<exists>c. s = c # t \<and> in_class rs c)"
  by (cases s) auto

lemma reps_Cls_iff:
  "t \<in> set (reps (\<lambda>u. rests (Cls rs) u) lo hi s) \<longleftrightarrow>
     (\<exists>n. lo \<le> n \<and> n \<le> hi \<and> n \<le> length s \<and> t = drop n s \<and> list_all (in_class rs) (take n s))"
proof (induction hi arbitrary: lo s)
  case 0
  then show ?case by auto
next
  case (Suc hi)
  show ?case
  proof (cases s)
    case Nil
    then show ?thesis by auto
  next
    case (Cons c cs)
    show ?thesis
    proof
      assume "t \<in> set (reps (\<lambda>u. rests (Cls rs) u) lo (Suc hi) s)"
      then consider "lo = 0" "t = s"
        | "in_class rs c" "t \<in> set (reps (\<lambda>u. rests (Cls rs) u) (lo - 1) hi cs)"
        using Cons by (auto split: if_splits)
      then show "\<exists>n. lo \<le> n \<and> n \<le> Suc hi \<and> n \<le> length s \<and> t = drop n s \<and> list_all (in_class rs) (take n s)"
      proof cases
        case 1
        then show ?thesis by (intro exI[of _ 0]) simp
      next
        case 2
        then obtain m where m: "lo - 1 \<le> m" "m \<le> hi" "m \<le> length cs" "t = drop m cs"
          "list_all (in_class rs) (take m cs)"
          using Suc.IH by blast
        then show ?thesis using 2(1) Cons by (intro exI[of _ "Suc m"]) auto
      qed
    next
      assume "\<exists>n. lo \<le> n \<and> n \<le> Suc hi \<and> n \<le> length s \<and> t = drop n s \<and> list_all (in_class rs) (take n s)"
      then obtain n where n: "lo \<le> n" "n \<le> Suc hi" "n \<le> length s" "t = drop n s"
        "list_all (in_class rs) (take n s)" by blast
      show "t \<in> set (reps (\<lambda>u. rests (Cls rs) u) lo (Suc hi) s)"
      proof (cases n)
        case 0
        then show ?thesis using n by simp
      next
        case (Suc m)
        then have "t \<in> set (reps (\<lambda>u. rests (Cls rs) u) (lo - 1) hi cs)" and "in_class rs c"
          using n Cons Suc.IH[of "lo - 1" cs] by auto
        then show ?thesis using Cons by simp
      qed
    qed
  qed
qed

lemma rep_class_test:
  "[] \<in> set (reps (\<lambda>u. rests (Cls rs) u) lo hi s) \<longleftrightarrow>
     (lo \<le> length s \<and> length s \<le> hi \<and> list_all (in_class rs) s)"
  unfolding reps_Cls_iff by auto

lemma seq_test:
  "[] \<in> set (rests (Seq a (Rep lo hi (Cls rs))) s) \<longleftrightarrow>
     (\<exists>u \<in> set (rests a s). lo \<le> length u \<and> length u \<le> hi \<and> list_all (in_class rs) u)"
  by (simp add: rep_class_test)

lemma btc_test: "regex_test btc_regex a = btc_pattern a"
  unfolding regex_test_def btc_regex_def seq_test btc_pattern_def btc_prefixes_def
  by (auto simp: alnum_class[abs_def])

lemma evm_test: "regex_test evm_regex a = evm_pattern a"
proof -
  have len: "take 2 a = ''0x'' \<Longrightarrow> 2 \<le> length a"
    using length_take[of 2 a] by auto
  show ?thesis
    unfolding regex_test_def evm_regex_def seq_test evm_pattern_def
    using len by (auto simp: hex_class[abs_def] numeral_2_eq_2[symmetric])
qed

lemma sol_test: "regex_test sol_regex a = sol_pattern a"
  unfolding regex_test_def sol_regex_def sol_pattern_def rests.simps rep_class_test
  by (auto simp: base58_class[abs_def])

lemma isValidAddress_BTC: "isValidAddress a BTC = btc_pattern a"
  by (auto simp: isValidAddress_def btc_test btc_pattern_def btc_prefixes_def)

lemma isValidAddress_EVM: "isValidAddress a ETH = evm_pattern a" "isValidAddress a BNB = evm_pattern a"
  by (auto simp: isValidAddress_def evm_test evm_pattern_def)

lemma isValidAddress_SOL: "isValidAddress a SOL = sol_pattern a"
  by (auto simp: isValidAddress_def sol_test sol_pattern_def)

text \<open>
  Claim C5. For every chain, \<^verbatim>\<open>isValidAddress\<close> returns true exactly when the address
  matches the chain's pattern: a BTC prefix and 25 to 59 letters or digits; \<^verbatim>\<open>0x\<close> and
  exactly 40 hexadecimal digits for ETH and BNB; 32 to 44 base58 characters for SOL. In
  particular an address with none of the prefixes, or with a character outside the
  alphabet, is rejected whatever its length. No checksum is computed.
\<close>

theorem isValidAddress_matches_pattern:
  "(isValidAddress a BTC \<longleftrightarrow> btc_pattern a) \<and>
   (isValidAddress a ETH \<longleftrightarrow> evm_pattern a) \<and>
   (isValidAddress a BNB \<longleftrightarrow> evm_pattern a) \<and>
   (isValidAddress a SOL \<longleftrightarrow> sol_pattern a) \<and>
   (list_all (\<lambda>p. take (length p) a \<noteq> p) btc_prefixes \<longrightarrow> \<not> isValidAddress a BTC) \<and>
   (list_ex (\<lambda>c. c \<notin> set alnum_chars) a \<longrightarrow> \<not> isValidAddress a BTC) \<and>
   (take 2 a \<noteq> ''0x'' \<or> list_ex (\<lambda>c. c \<notin> set hex_digits) (drop 2 a)
      \<longrightarrow> \<not> isValidAddress a ETH \<and> \<not> isValidAddress a BNB) \<and>
   (list_ex (\<lambda>c. c \<notin> set base58_alphabet) a \<longrightarrow> \<not> isValidAddress a SOL)"
proof -
  have btc1: "list_all (\<lambda>p. take (length p) a \<noteq> p) btc_prefixes \<Longrightarrow> \<not> btc_pattern a"
    by (auto simp: btc_pattern_def btc_prefixes_def)
  have btc2: "list_ex (\<lambda>c. c \<notin> set alnum_chars) a \<Longrightarrow> \<not> btc_pattern a"
  proof
    assume ex: "list_ex (\<lambda>c. c \<notin> set alnum_chars) a" and "btc_pattern a"
    then obtain p where p: "p \<in> set btc_prefixes" "take (length p) a = p"
      "list_all (\<lambda>c. c \<in> set alnum_chars) (drop (length p) a)"
      by (auto simp: btc_pattern_def list_ex_iff)
    have "set p \<subseteq> set alnum_chars"
      using p(1) by (auto simp: btc_prefixes_def alnum_chars_def)
    moreover have "set a = set (take (length p) a) \<union> set (drop (length p) a)"
      by (metis append_take_drop_id set_append)
    ultimately have "set a \<subseteq> set alnum_chars"
      using p(2,3) by (auto simp: list_all_iff)
    then show False using ex by (auto simp: list_ex_iff)
  qed
  have evm: "take 2 a \<noteq> ''0x'' \<or> list_ex (\<lambda>c. c \<notin> set hex_digits) (drop 2 a) \<Longrightarrow> \<not> evm_pattern a"
    by (auto simp: evm_pattern_def list_ex_iff list_all_iff)
  have sol: "list_ex (\<lambda>c. c \<notin> set base58_alphabet) a \<Longrightarrow> \<not> sol_pattern a"
    by (auto simp: sol_pattern_def list_ex_iff list_all_iff)
  show ?thesis
    using btc1 btc2 evm sol
    by (simp only: isValidAddress_BTC isValidAddress_EVM isValidAddress_SOL) blast
qed

theorem isValidAddress_matches_pattern_witness:
  "isValidAddress ''0xABCDEF0123456789abcdef0123456789ABCDEF01'' ETH \<and>
   isValidAddress ''0xABCDEF0123456789abcdef0123456789ABCDEF01'' BNB \<and>
   \<not> isValidAddress ''0xABCDEF0123456789abcdef0123456789ABCDEF01'' BTC \<and>
   \<not> isValidAddress ''0xABCDEF0123456789abcdef0123456789ABCDEF01'' SOL \<and>
   \<not> isValidAddress ''0xGBCDEF0123456789abcdef0123456789ABCDEF01'' ETH \<and>
   isValidAddress ''1BoatSLRHtKNngkdXEeobR76b53LETtpyT'' BTC \<and>
   isValidAddress ''1BoatSLRHtKNngkdXEeobR76b53LETtpyT'' SOL \<and>
   \<not> isValidAddress ''1BoatSLRHtKNngkdXEeobR76b53LETtpyT'' ETH \<and>
   \<not> isValidAddress ''not-an-address'' BTC"
  using isValidAddress_matches_pattern [of "''0xABCDEF0123456789abcdef0123456789ABCDEF01''"]
        isValidAddress_matches_pattern [of "''0xGBCDEF0123456789abcdef0123456789ABCDEF01''"]
        isValidAddress_matches_pattern [of "''1BoatSLRHtKNngkdXEeobR76b53LETtpyT''"]
        isValidAddress_matches_pattern [of "''not-an-address''"]
  by (simp add: btc_pattern_def btc_prefixes_def evm_pattern_def sol_pattern_def
        alnum_chars_def hex_digits_def base58_alphabet_def)

section \<open>Theorems: the price cache\<close>

lemma store_prices_other:
  "i \<notin> set (map fst (takeWhile (\<lambda>kv. snd kv \<noteq> NullEntry) data)) \<Longrightarrow>
     settle (store_prices now data cache) i = cache i"
proof (induction data arbitrary: cache)
  case Nil
  then show ?case by simp
next
  case (Cons kv data)
  obtain k entry where kv: "kv = (k, entry)" by (cases kv)
  show ?case
  proof (cases entry)
    case NullEntry
    then show ?thesis using kv by simp
  next
    case (Quote usd)
    then show ?thesis using Cons kv by simp
  qed
qed

lemma store_prices_stamp:
  "i \<in> set (map fst (takeWhile (\<lambda>kv. snd kv \<noteq> NullEntry) data)) \<Longrightarrow>
     \<exists>e. settle (store_prices now data cache) i = Some e \<and> timestamp e = now"
proof (induction data arbitrary: cache)
  case Nil
  then show ?case by simp
next
  case (Cons kv data)
  obtain k entry where kv: "kv = (k, entry)" by (cases kv)
  show ?case
  proof (cases entry)
    case NullEntry
    then show ?thesis using Cons.prems kv by simp
  next
    case (Quote usd)
    show ?thesis
    proof (cases "i \<in> set (map fst (takeWhile (\<lambda>kv. snd kv \<noteq> NullEntry) data))")
      case True
      then show ?thesis using Cons.IH kv Quote by simp
    next
      case False
      then have "i = k" using Cons.prems kv Quote by simp
      then show ?thesis using False kv Quote by (simp add: store_prices_other)
    qed
  qed
qed

lemma result_fold:
  "foldl (\<lambda>result i. result(i \<mapsto> f i)) m ids j = (if j \<in> set ids then Some (f j) else m j)"
  by (induction ids arbitrary: m) auto

lemma fetchTokenPrices_requested:
  "i \<in> set ids \<Longrightarrow>
     pf_prices (fetchTokenPrices resp now cache ids) i
       = Some (cached_price (pf_cache (fetchTokenPrices resp now cache ids)) i)"
  by (simp add: fetchTokenPrices_def finish_prices_def Let_def result_fold)

lemma fetchTokenPrices_request:
  "requests_id (fetchTokenPrices resp now cache ids) i \<longleftrightarrow> (i \<in> set ids \<and> is_missing cache now i)"
  by (auto simp: requests_id_def fetchTokenPrices_def finish_prices_def missing_ids_def Let_def
        filter_empty_conv)

lemma fetchTokenPrices_no_request:
  "pf_request (fetchTokenPrices resp now cache ids) = None \<Longrightarrow>
     pf_cache (fetchTokenPrices resp now cache ids) = cache"
  by (auto simp: fetchTokenPrices_def finish_prices_def Let_def split: if_splits)

lemma fetchTokenPrices_answered:
  assumes "requests_id (fetchTokenPrices resp now cache ids) i" "answers_id resp i"
  shows "\<exists>e. pf_cache (fetchTokenPrices resp now cache ids) i = Some e \<and> timestamp e = now"
proof -
  from assms(2) obtain data where r: "resp = Response True (Some data)"
    "i \<in> set (map fst (takeWhile (\<lambda>kv. snd kv \<noteq> NullEntry) data))"
    by (auto simp: answers_id_def split: Fetched.splits option.splits)
  from assms(1) have "missing_ids cache now ids \<noteq> []"
    by (auto simp: requests_id_def fetchTokenPrices_def finish_prices_def Let_def
          split: if_splits)
  then have "pf_cache (fetchTokenPrices resp now cache ids) = settle (store_prices now data cache)"
    using r(1) by (simp add: fetchTokenPrices_def finish_prices_def Let_def refresh_prices_def)
  then show ?thesis using store_prices_stamp[OF r(2)] by simp
qed

text \<open>
  Claim C3, as stated, fails in four ways, each with two calls for \<^verbatim>\<open>bitcoin\<close> one second
  apart on an empty cache. After a request that failed, the second call issues the
  request again. When the calls overlap, both find the id missing and both issue the
  request, though both are answered. When the answer holds a \<^verbatim>\<open>null\<close> entry before the id,
  the loop that stores it throws before it reaches the id, and the second call issues the
  request again. And when the second call also asks for an id that is missing, it issues
  a request, for that id alone.
\<close>

theorem fetchTokenPrices_two_requests_within_ttl:
  "pf_request (fetchTokenPrices Rejected 0 Map.empty [''bitcoin'']) = Some [''bitcoin''] \<and>
   pf_request (fetchTokenPrices Rejected 1000
                 (pf_cache (fetchTokenPrices Rejected 0 Map.empty [''bitcoin''])) [''bitcoin''])
     = Some [''bitcoin''] \<and>
   map_prod pf_request pf_request
     (overlapping_calls bitcoin_quote 0 [''bitcoin''] bitcoin_quote 1000 [''bitcoin''] Map.empty)
     = (Some [''bitcoin''], Some [''bitcoin'']) \<and>
   pf_request (fetchTokenPrices quote_after_null 0 Map.empty [''bitcoin'']) = Some [''bitcoin''] \<and>
   pf_request (fetchTokenPrices quote_after_null 1000
                 (pf_cache (fetchTokenPrices quote_after_null 0 Map.empty [''bitcoin'']))
                 [''bitcoin''])
     = Some [''bitcoin''] \<and>
   pf_request (fetchTokenPrices bitcoin_quote 0 Map.empty [''bitcoin'']) = Some [''bitcoin''] \<and>
   pf_request (fetchTokenPrices bitcoin_quote 1000
                 (pf_cache (fetchTokenPrices bitcoin_quote 0 Map.empty [''bitcoin'']))
                 [''bitcoin'', ''ethereum''])
     = Some [''ethereum'']"
  by (simp add: fetchTokenPrices_def finish_prices_def missing_ids_def overlapping_calls_def
        Let_def is_missing_def refresh_prices_def bitcoin_quote_def quote_after_null_def
        PRICE_CACHE_TTL_def)

text \<open>
  Claim C3, amended. Take two calls of \<^verbatim>\<open>fetchTokenPrices\<close> that both ask for an id, the
  second starting on the cache the first left when it returned, at most 60 seconds after
  the first started. If the first call's upstream request for the id, when it issues one,
  is answered with the id (an ok response with a body that can be used, the id among its
  keys, and no \<^verbatim>\<open>null\<close> entry at or before that key), then at most one of the two calls
  issues an upstream request that asks for the id; and when the second call issues no
  request at all, it returns the price the first call returned.
\<close>

theorem fetchTokenPrices_one_request_within_ttl:
  assumes "first = fetchTokenPrices resp1 now1 cache ids1"
    and "second = fetchTokenPrices resp2 now2 (pf_cache first) ids2"
    and "i \<in> set ids1" and "i \<in> set ids2"
    and "now1 \<le> now2" and "now2 - now1 \<le> 60000"
    and "requests_id first i \<Longrightarrow> answers_id resp1 i"
  shows "\<not> (requests_id first i \<and> requests_id second i) \<and>
         (pf_request second = None \<longrightarrow> pf_prices second i = pf_prices first i)"
proof -
  have one: "\<not> requests_id second i" if req: "requests_id first i"
  proof -
    from req assms(7) have "answers_id resp1 i" by simp
    then obtain e where e: "pf_cache first i = Some e" "timestamp e = now1"
      using fetchTokenPrices_answered req assms(1) by blast
    then have "\<not> is_missing (pf_cache first) now2 i"
      using assms(6) by (simp add: is_missing_def PRICE_CACHE_TTL_def)
    then show ?thesis by (simp add: assms(2) fetchTokenPrices_request)
  qed
  have same: "pf_prices second i = pf_prices first i" if "pf_request second = None"
    using that assms(1-4) fetchTokenPrices_no_request[of resp2 now2 "pf_cache first" ids2]
    by (simp add: fetchTokenPrices_requested)
  show ?thesis using one same by blast
qed

theorem fetchTokenPrices_one_request_within_ttl_witness:
  "answers_id bitcoin_quote ''bitcoin'' \<and>
   requests_id (fetchTokenPrices bitcoin_quote 0 Map.empty [''bitcoin'']) ''bitcoin'' \<and>
   \<not> requests_id (fetchTokenPrices Rejected 60000
        (pf_cache (fetchTokenPrices bitcoin_quote 0 Map.empty [''bitcoin'']))
        [''bitcoin'']) ''bitcoin'' \<and>
   pf_prices (fetchTokenPrices Rejected 60000
        (pf_cache (fetchTokenPrices bitcoin_quote 0 Map.empty [''bitcoin'']))
        [''bitcoin'']) ''bitcoin'' = Some 50000"
  using fetchTokenPrices_one_request_within_ttl
    [OF refl refl, of "''bitcoin''" "[''bitcoin'']" "[''bitcoin'']" 0 60000
       bitcoin_quote Map.empty Rejected]
  by (simp add: fetchTokenPrices_def finish_prices_def missing_ids_def Let_def is_missing_def
        refresh_prices_def requests_id_def answers_id_def cached_price_def PRICE_CACHE_TTL_def
        bitcoin_quote_def)

section \<open>Theorems: fetchSolanaStats\<close>

lemma example_sol_address_valid: "isValidAddress example_sol_address SOL"
  by (simp add: isValidAddress_SOL sol_pattern_def example_sol_address_def base58_alphabet_def)

lemma example_btc_address_valid: "isValidAddress example_btc_address BTC"
  by (simp add: isValidAddress_BTC btc_pattern_def btc_prefixes_def example_btc_address_def
        alnum_chars_def)

lemma no_address_invalid:
  "\<not> isValidAddress no_address BTC \<and> \<not> isValidAddress no_address ETH \<and>
   \<not> isValidAddress no_address SOL"
  by (simp add: isValidAddress_BTC isValidAddress_EVM isValidAddress_SOL btc_pattern_def
        btc_prefixes_def evm_pattern_def sol_pattern_def no_address_def base58_alphabet_def)

lemma sol_balance_step_settles:
  "settles r \<Longrightarrow>
     \<exists>s'. sol_balance_step r s = Done s' \<and> txCount s' = txCount s \<and>
          firstTxDate s' = firstTxDate s"
  by (auto simp: sol_balance_step_def settles_def split: Fetched.splits option.splits if_splits)

lemma sol_balance_step_throws: "\<not> settles r \<Longrightarrow> \<exists>e. sol_balance_step r s = Threw e s"
  by (auto simp: sol_balance_step_def settles_def split: Fetched.splits option.splits if_splits)

lemma sol_sigs_step_count:
  "txCount (settle (sol_sigs_step r clk a p s)) = (if returns_signature r then 100 else txCount s) \<and>
   firstTxDate (settle (sol_sigs_step r clk a p s)) = firstTxDate s"
  by (simp add: sol_sigs_step_def returns_signature_def Let_def
        split: Fetched.splits option.splits list.splits)

lemma sol_tokens_step_frame:
  "txCount (settle (sol_tokens_step r s)) = txCount s \<and>
   firstTxDate (settle (sol_tokens_step r s)) = firstTxDate s"
  by (simp add: sol_tokens_step_def split: Fetched.splits option.splits)

lemma sol_try_count:
  "txCount (fst (settle (sol_try net clk a (s, cache)))) =
     (if settles (sol_balance net) \<and> returns_signature (sol_sigs net) then 100 else txCount s) \<and>
   firstTxDate (fst (settle (sol_try net clk a (s, cache)))) = firstTxDate s"
proof (cases "settles (sol_balance net)")
  case False
  then obtain e where "sol_balance_step (sol_balance net) s = Threw e s"
    using sol_balance_step_throws by blast
  then show ?thesis using False by (simp add: sol_try_def)
next
  case True
  then obtain s1 where s1: "sol_balance_step (sol_balance net) s = Done s1"
    "txCount s1 = txCount s" "firstTxDate s1 = firstTxDate s"
    using sol_balance_step_settles by blast
  define p where
    "p = price_of (pf_prices (fetchTokenPrices (sol_price net) (prices_now clk) cache [''solana'']))
           ''solana''"
  define s2 where "s2 = settle (sol_sigs_step (sol_sigs net) clk a p s1)"
  define s3 where "s3 = settle (sol_tokens_step (sol_tokens net) s2)"
  have f2: "txCount s2 = (if returns_signature (sol_sigs net) then 100 else txCount s)"
    "firstTxDate s2 = firstTxDate s"
    using sol_sigs_step_count[of "sol_sigs net" clk a p s1] s1 by (simp_all add: s2_def)
  have f3: "txCount s3 = txCount s2" "firstTxDate s3 = firstTxDate s2"
    using sol_tokens_step_frame[of "sol_tokens net" s2] by (simp_all add: s3_def)
  have "fst (settle (sol_try net clk a (s, cache))) \<in> {s2, s3}"
    unfolding sol_try_def s2_def s3_def p_def
    by (simp add: s1(1) Let_def split: outcome.splits)
  then show ?thesis using f2 f3 True by auto
qed

lemma fetchSolanaStats_null_signature:
  "map_option (\<lambda>st. (txCount st, latestTransaction st))
     (stats_of (fetchSolanaStats sol_net_null_signature example_clock Map.empty
                  example_sol_address))
     = Some (100, None)"
  by (simp add: fetchSolanaStats_def example_sol_address_valid stats_of_def sol_try_def
        sol_net_null_signature_def sol_balance_step_def sol_sigs_step_def Let_def
        initial_stats_def)

text \<open>
  Claim C4, as stated, fails for the transaction count: when the signatures request
  returns a signature, \<^verbatim>\<open>fetchSolanaStats\<close> sets \<^verbatim>\<open>txCount\<close> to 100, which is not the
  default 0.
\<close>

theorem fetchSolanaStats_sets_txCount_100:
  "map_option txCount
     (stats_of (fetchSolanaStats sol_net_one_signature example_clock Map.empty example_sol_address))
     = Some 100 \<and>
   txCount (initial_stats example_clock) = 0"
  by (simp add: fetchSolanaStats_def example_sol_address_valid stats_of_def sol_try_def
        sol_net_one_signature_def sol_balance_step_def sol_sigs_step_def sol_tokens_step_def
        Let_def initial_stats_def List.map_filter_simps)

text \<open>
  Claim C4, amended. For every address, \<^verbatim>\<open>fetchSolanaStats\<close> returns stats whose
  \<^verbatim>\<open>firstTxDate\<close> is the default. Their \<^verbatim>\<open>txCount\<close> is the fixed placeholder 100 when the
  address is valid, the balance request does not throw and the signatures request
  returns a signature (an ok response whose result is a list that is not empty), and it
  is the default 0 in every other case; in particular it is the default whenever no
  signature is returned. Neither value is computed from the responses.
\<close>

theorem fetchSolanaStats_first_date_and_count:
  "map_option firstTxDate (stats_of (fetchSolanaStats net clk cache a))
     = Some (firstTxDate (initial_stats clk)) \<and>
   map_option txCount (stats_of (fetchSolanaStats net clk cache a))
     = Some (if isValidAddress a SOL \<and> settles (sol_balance net) \<and>
                returns_signature (sol_sigs net)
             then 100 else txCount (initial_stats clk)) \<and>
   (\<not> returns_signature (sol_sigs net) \<longrightarrow>
      map_option txCount (stats_of (fetchSolanaStats net clk cache a))
        = Some (txCount (initial_stats clk))) \<and>
   txCount (initial_stats clk) = 0"
proof (cases "isValidAddress a SOL")
  case False
  then show ?thesis by (simp add: fetchSolanaStats_def Let_def stats_of_def initial_stats_def)
next
  case True
  then have "stats_of (fetchSolanaStats net clk cache a)
      = Some (fst (settle (sol_try net clk a (initial_stats clk, cache))))"
    by (simp add: fetchSolanaStats_def Let_def stats_of_def)
  then show ?thesis
    using sol_try_count[of net clk a "initial_stats clk" cache] True
    by (simp add: initial_stats_def)
qed

theorem fetchSolanaStats_first_date_and_count_witness:
  "map_option txCount
     (stats_of (fetchSolanaStats sol_net_one_signature example_clock Map.empty example_sol_address))
     = Some 100 \<and>
   map_option txCount
     (stats_of (fetchSolanaStats sol_net_null_signature example_clock Map.empty example_sol_address))
     = Some 100 \<and>
   map_option txCount
     (stats_of (fetchSolanaStats sol_net_no_signature example_clock Map.empty example_sol_address))
     = Some 0 \<and>
   map_option txCount
     (stats_of (fetchSolanaStats sol_net_balance_rejected example_clock Map.empty
                  example_sol_address))
     = Some 0 \<and>
   map_option txCount
     (stats_of (fetchSolanaStats sol_net_one_signature example_clock Map.empty no_address))
     = Some 0 \<and>
   map_option firstTxDate
     (stats_of (fetchSolanaStats sol_net_one_signature example_clock Map.empty example_sol_address))
     = Some 1700006399000 \<and>
   map_option firstTxDate
     (stats_of (fetchSolanaStats sol_net_no_signature example_clock Map.empty example_sol_address))
     = Some 1700006399000"
  using fetchSolanaStats_first_date_and_count
    [of sol_net_one_signature example_clock Map.empty example_sol_address]
    fetchSolanaStats_first_date_and_count
    [of sol_net_null_signature example_clock Map.empty example_sol_address]
    fetchSolanaStats_first_date_and_count
    [of sol_net_no_signature example_clock Map.empty example_sol_address]
    fetchSolanaStats_first_date_and_count
    [of sol_net_balance_rejected example_clock Map.empty example_sol_address]
    fetchSolanaStats_first_date_and_count
    [of sol_net_one_signature example_clock Map.empty no_address]
  by (simp add: example_sol_address_valid no_address_invalid settles_def returns_signature_def
        sol_net_one_signature_def sol_net_null_signature_def sol_net_no_signature_def
        sol_net_balance_rejected_def initial_stats_def example_clock_def)

section \<open>Theorems: fetchBTCStats\<close>

lemma vout_amount_paid_to: "vout_amount a outs = paid_to a outs"
proof -
  have "foldl (\<lambda>acc out. if scriptpubkey_address out = Some a then acc + out_value out else acc)
          z outs = z + paid_to a outs" for z
    by (induction outs arbitrary: z) (auto simp: paid_to_def)
  then show ?thesis by (simp add: vout_amount_def)
qed

lemma btc_latest_step_receive:
  assumes "list_ex (\<lambda>out. scriptpubkey_address out = Some a) (vout lastTx)"
  shows "\<exists>lt. latestTransaction (fst (settle (btc_latest_step net clk a (lastTx # older) st)))
                 = Some lt \<and>
              tx_type lt = Receive \<and> amount lt = paid_to a (vout lastTx) / 100000000 \<and>
              tx_to lt = a"
  using assms
  by (simp add: btc_latest_step_def btc_isReceive_def Let_def vout_amount_paid_to
        split: option.splits)

text \<open>
  Claim C10. Let the address be valid, the summary request succeed, and the transaction
  list be a non-empty array whose first transaction has the address among its outputs.
  Then \<^verbatim>\<open>fetchBTCStats\<close> records the latest transaction as a \<^verbatim>\<open>receive\<close> to the address,
  and its amount is the sum of the outputs that pay the address, in BTC. Nothing is
  assumed of the inputs: a self-transfer, or a spend with change back to the address, is
  a \<^verbatim>\<open>receive\<close> too.
\<close>

theorem fetchBTCStats_output_to_address_is_receive:
  assumes "isValidAddress a BTC"
    and "btc_summary net = Response True (Some data)"
    and "btc_txs net = Response True (Some (TxArray (lastTx # older)))"
    and "\<exists>out \<in> set (vout lastTx). scriptpubkey_address out = Some a"
  shows "\<exists>st cache' lt. fetchBTCStats net clk cache a = Inr (st, cache') \<and>
           latestTransaction st = Some lt \<and> tx_type lt = Receive \<and>
           amount lt = paid_to a (vout lastTx) / 100000000 \<and> tx_to lt = a"
proof -
  have ex: "list_ex (\<lambda>out. scriptpubkey_address out = Some a) (vout lastTx)"
    using assms(4) by (simp add: list_ex_iff)
  obtain st1 where body: "btc_try net clk a (initial_stats clk, cache)
      = btc_latest_step net clk a (lastTx # older) st1"
    using assms(2,3) by (simp add: btc_try_def Let_def)
  obtain st cache' where s: "settle (btc_latest_step net clk a (lastTx # older) st1) = (st, cache')"
    by (cases "settle (btc_latest_step net clk a (lastTx # older) st1)")
  have "fetchBTCStats net clk cache a = Inr (st, cache')"
    using assms(1) body s by (simp add: fetchBTCStats_def Let_def)
  then show ?thesis
    using btc_latest_step_receive[OF ex, of net clk older st1] s by auto
qed

theorem fetchBTCStats_output_to_address_is_receive_witness:
  "vin_amount example_btc_address 0 (vin self_transfer_tx) = Some 500000000 \<and>
   (\<exists>st cache' lt.
      fetchBTCStats btc_net_self_transfer example_clock Map.empty example_btc_address
        = Inr (st, cache') \<and>
      latestTransaction st = Some lt \<and> tx_type lt = Receive \<and> amount lt = 3 \<and>
      tx_to lt = example_btc_address)"
  using fetchBTCStats_output_to_address_is_receive
    [OF example_btc_address_valid, of btc_net_self_transfer btc_summary_3_tx self_transfer_tx "[]"
       example_clock Map.empty]
  by (simp add: btc_net_self_transfer_def self_transfer_tx_def paid_to_def example_btc_address_def)

section \<open>Theorems: what the fetchers do on failure\<close>

lemma btc_try_failed: "failed (btc_summary net) \<Longrightarrow> settle (btc_try net clk a st) = st"
  by (auto simp: btc_try_def failed_def split: Fetched.splits)

lemma btc_try_txs_failed:
  "btc_summary net = Response True (Some data) \<Longrightarrow> failed (btc_txs net) \<Longrightarrow>
     settle (btc_try net clk a (s, cache)) =
       (s\<lparr>balance := (stat_or0 funded_txo_sum (chain_stats data)
                          + stat_or0 funded_txo_sum (mempool_stats data)
                        - (stat_or0 spent_txo_sum (chain_stats data)
                          + stat_or0 spent_txo_sum (mempool_stats data))) / 100000000,
          txCount := stat_or0 tx_count (chain_stats data)
                       + stat_or0 tx_count (mempool_stats data)\<rparr>, cache)"
  by (auto simp: btc_try_def failed_def Let_def split: Fetched.splits)

lemma evm_balance_step_failed: "failed r \<Longrightarrow> settle (evm_balance_step js r s) = s"
  by (auto simp: evm_balance_step_def failed_def split: Fetched.splits)

lemma evm_latest_step_failed: "failed r \<Longrightarrow> settle (evm_latest_step js r a c p s) = s"
  by (auto simp: evm_latest_step_def failed_def split: Fetched.splits)

lemma evm_first_step_failed: "failed r \<Longrightarrow> settle (evm_first_step js r s) = s"
  by (auto simp: evm_first_step_def failed_def split: Fetched.splits)

lemma evm_try_stats:
  "fst (settle (evm_try js net clk a c (s, cache))) \<in>
     {settle (evm_balance_step js (evm_balance net) s),
      settle (evm_latest_step js (evm_latest net) a c
        (price_of (pf_prices (fetchTokenPrices (evm_price net) (prices_now clk) cache [getCoingeckoId c]))
           (getCoingeckoId c))
        (settle (evm_balance_step js (evm_balance net) s))),
      settle (evm_first_step js (evm_first net)
        (settle (evm_latest_step js (evm_latest net) a c
          (price_of (pf_prices (fetchTokenPrices (evm_price net) (prices_now clk) cache [getCoingeckoId c]))
             (getCoingeckoId c))
          (settle (evm_balance_step js (evm_balance net) s)))))}"
  unfolding evm_try_def by (simp add: Let_def split: outcome.splits)

lemma evm_try_failed:
  assumes "failed (evm_balance net)" "failed (evm_latest net)" "failed (evm_first net)"
  shows "fst (settle (evm_try js net clk a c (s, cache))) = s"
  using evm_try_stats[of js net clk a c s cache] assms
  by (simp add: evm_balance_step_failed evm_latest_step_failed evm_first_step_failed)

lemma sol_balance_step_failed: "failed r \<Longrightarrow> settle (sol_balance_step r s) = s"
  by (auto simp: sol_balance_step_def failed_def split: Fetched.splits)

lemma sol_sigs_step_failed: "failed r \<Longrightarrow> settle (sol_sigs_step r clk a p s) = s"
  by (auto simp: sol_sigs_step_def failed_def split: Fetched.splits)

lemma sol_tokens_step_failed: "failed r \<Longrightarrow> settle (sol_tokens_step r s) = s"
  by (auto simp: sol_tokens_step_def failed_def split: Fetched.splits)

lemma sol_try_stats:
  "fst (settle (sol_try net clk a (s, cache))) \<in>
     {settle (sol_balance_step (sol_balance net) s),
      settle (sol_sigs_step (sol_sigs net) clk a
        (price_of (pf_prices (fetchTokenPrices (sol_price net) (prices_now clk) cache [''solana'']))
           ''solana'')
        (settle (sol_balance_step (sol_balance net) s))),
      settle (sol_tokens_step (sol_tokens net)
        (settle (sol_sigs_step (sol_sigs net) clk a
          (price_of (pf_prices (fetchTokenPrices (sol_price net) (prices_now clk) cache [''solana'']))
             ''solana'')
          (settle (sol_balance_step (sol_balance net) s)))))}"
  unfolding sol_try_def by (simp add: Let_def split: outcome.splits)

lemma sol_try_failed:
  assumes "failed (sol_balance net)" "failed (sol_sigs net)" "failed (sol_tokens net)"
  shows "fst (settle (sol_try net clk a (s, cache))) = s"
  using sol_try_stats[of net clk a s cache] assms
  by (simp add: sol_balance_step_failed sol_sigs_step_failed sol_tokens_step_failed)

lemma evm_try_balance_only:
  assumes "evm_balance net = Response True (Some balData)" "bal_status balData = ''1''"
    and "failed (evm_latest net)" "failed (evm_first net)"
  shows "fst (settle (evm_try js net clk a c (s, cache)))
           = s\<lparr>balance := parseFloat js (bal_result balData) / 1000000000000000000\<rparr>"
proof -
  have "settle (evm_balance_step js (evm_balance net) s)
          = s\<lparr>balance := parseFloat js (bal_result balData) / 1000000000000000000\<rparr>"
    using assms(1,2) by (simp add: evm_balance_step_def)
  then show ?thesis
    using evm_try_stats[of js net clk a c s cache] assms(3,4)
    by (simp add: evm_latest_step_failed evm_first_step_failed)
qed

lemma sol_try_balance_only:
  assumes "sol_balance net = Response True (Some balData)"
    and "failed (sol_sigs net)" "failed (sol_tokens net)"
  shows "fst (settle (sol_try net clk a (s, cache)))
           = s\<lparr>balance := (case sol_result balData of
                              None \<Rightarrow> 0
                            | Some r \<Rightarrow> num_or0 (sol_value r)) / 1000000000\<rparr>"
proof -
  have "settle (sol_balance_step (sol_balance net) s)
          = s\<lparr>balance := (case sol_result balData of
                             None \<Rightarrow> 0
                           | Some r \<Rightarrow> num_or0 (sol_value r)) / 1000000000\<rparr>"
    using assms(1) by (simp add: sol_balance_step_def)
  then show ?thesis
    using sol_try_stats[of net clk a s cache] assms(2,3)
    by (simp add: sol_sigs_step_failed sol_tokens_step_failed)
qed

lemma example_evm_address_valid: "isValidAddress example_evm_address ETH"
  by (simp add: isValidAddress_EVM evm_pattern_def example_evm_address_def hex_digits_def)

lemma example_btc_address_valid_sol: "isValidAddress example_btc_address SOL"
  by (simp add: isValidAddress_SOL sol_pattern_def example_btc_address_def base58_alphabet_def)

text \<open>
  Claim C2, as stated, fails: when the summary request succeeds and the request for the
  transaction list fails, \<^verbatim>\<open>fetchBTCStats\<close> returns the balance and the count it has
  fetched, not the zeroed object.
\<close>

theorem fetchBTCStats_keeps_balance_when_txs_fail:
  "failed (btc_txs btc_net_txs_fail) \<and>
   map_option balance
     (stats_of (fetchBTCStats btc_net_txs_fail example_clock Map.empty example_btc_address))
     = Some 1 \<and>
   map_option txCount
     (stats_of (fetchBTCStats btc_net_txs_fail example_clock Map.empty example_btc_address))
     = Some 3 \<and>
   stats_of (fetchBTCStats btc_net_txs_fail example_clock Map.empty example_btc_address)
     \<noteq> Some (initial_stats example_clock)"
  by (simp add: fetchBTCStats_def example_btc_address_valid stats_of_def Let_def
        btc_try_txs_failed[of _ btc_summary_3_tx] failed_def btc_net_txs_fail_def
        btc_summary_3_tx_def stat_or0_def num_or0_def initial_stats_def)

text \<open>
  Claim C2, amended. For every input each of the three fetchers returns a stats object
  and never throws. It returns the initial object (balance 0, count 0, no tokens, no
  latest transaction) when the address does not pass validation, and when its data
  requests fail or are not ok: the summary request of \<^verbatim>\<open>fetchBTCStats\<close>, and the three
  data requests of \<^verbatim>\<open>fetchEVMStats\<close> and of \<^verbatim>\<open>fetchSolanaStats\<close> (or the first of them, when
  the network fails on it). A failure of the later requests keeps what the first request
  filled in, every other field being as in the initial object: \<^verbatim>\<open>fetchBTCStats\<close> returns
  the fetched balance and count when the request for the transaction list fails, and
  \<^verbatim>\<open>fetchEVMStats\<close> and \<^verbatim>\<open>fetchSolanaStats\<close> return the fetched balance when the two later
  data requests fail.
\<close>

theorem fetchers_return_stats:
  "(\<exists>st. fetchBTCStats bnet clk cache a = Inr st) \<and>
   (\<exists>st. fetchEVMStats js enet clk cache a c = Inr st) \<and>
   (\<exists>st. fetchSolanaStats snet clk cache a = Inr st) \<and>
   (\<not> isValidAddress a BTC \<or> failed (btc_summary bnet) \<longrightarrow>
      stats_of (fetchBTCStats bnet clk cache a) = Some (initial_stats clk)) \<and>
   (\<not> isValidAddress a c \<or>
      failed (evm_balance enet) \<and> failed (evm_latest enet) \<and> failed (evm_first enet) \<longrightarrow>
      stats_of (fetchEVMStats js enet clk cache a c) = Some (initial_stats clk)) \<and>
   (\<not> isValidAddress a SOL \<or>
      failed (sol_balance snet) \<and> failed (sol_sigs snet) \<and> failed (sol_tokens snet) \<longrightarrow>
      stats_of (fetchSolanaStats snet clk cache a) = Some (initial_stats clk)) \<and>
   (evm_balance enet = Rejected \<longrightarrow>
      stats_of (fetchEVMStats js enet clk cache a c) = Some (initial_stats clk)) \<and>
   (sol_balance snet = Rejected \<longrightarrow>
      stats_of (fetchSolanaStats snet clk cache a) = Some (initial_stats clk)) \<and>
   (isValidAddress a BTC \<and> btc_summary bnet = Response True (Some data) \<and> failed (btc_txs bnet)
      \<longrightarrow> stats_of (fetchBTCStats bnet clk cache a)
            = Some ((initial_stats clk)
                \<lparr>balance := (stat_or0 funded_txo_sum (chain_stats data)
                               + stat_or0 funded_txo_sum (mempool_stats data)
                             - (stat_or0 spent_txo_sum (chain_stats data)
                               + stat_or0 spent_txo_sum (mempool_stats data))) / 100000000,
                 txCount := stat_or0 tx_count (chain_stats data)
                              + stat_or0 tx_count (mempool_stats data)\<rparr>)) \<and>
   (isValidAddress a c \<and> evm_balance enet = Response True (Some balData) \<and>
    bal_status balData = ''1'' \<and> failed (evm_latest enet) \<and> failed (evm_first enet)
      \<longrightarrow> stats_of (fetchEVMStats js enet clk cache a c)
            = Some ((initial_stats clk)
                \<lparr>balance := parseFloat js (bal_result balData) / 1000000000000000000\<rparr>)) \<and>
   (isValidAddress a SOL \<and> sol_balance snet = Response True (Some solData) \<and>
    failed (sol_sigs snet) \<and> failed (sol_tokens snet)
      \<longrightarrow> stats_of (fetchSolanaStats snet clk cache a)
            = Some ((initial_stats clk)
                \<lparr>balance := (case sol_result solData of
                               None \<Rightarrow> 0
                             | Some r \<Rightarrow> num_or0 (sol_value r)) / 1000000000\<rparr>)) \<and>
   balance (initial_stats clk) = 0 \<and> txCount (initial_stats clk) = 0 \<and>
   tokens (initial_stats clk) = [] \<and> latestTransaction (initial_stats clk) = None"
proof -
  have btc: "stats_of (fetchBTCStats bnet clk cache a) = Some (initial_stats clk)"
    if "\<not> isValidAddress a BTC \<or> failed (btc_summary bnet)"
    using that by (auto simp: fetchBTCStats_def Let_def stats_of_def btc_try_failed)
  have evm: "stats_of (fetchEVMStats js enet clk cache a c) = Some (initial_stats clk)"
    if "\<not> isValidAddress a c \<or>
        failed (evm_balance enet) \<and> failed (evm_latest enet) \<and> failed (evm_first enet)"
    using that by (auto simp: fetchEVMStats_def Let_def stats_of_def evm_try_failed)
  have sol: "stats_of (fetchSolanaStats snet clk cache a) = Some (initial_stats clk)"
    if "\<not> isValidAddress a SOL \<or>
        failed (sol_balance snet) \<and> failed (sol_sigs snet) \<and> failed (sol_tokens snet)"
    using that by (auto simp: fetchSolanaStats_def Let_def stats_of_def sol_try_failed)
  have evm1: "stats_of (fetchEVMStats js enet clk cache a c) = Some (initial_stats clk)"
    if "evm_balance enet = Rejected"
    using that
    by (simp add: fetchEVMStats_def Let_def stats_of_def evm_try_def evm_balance_step_def)
  have sol1: "stats_of (fetchSolanaStats snet clk cache a) = Some (initial_stats clk)"
    if "sol_balance snet = Rejected"
    using that
    by (simp add: fetchSolanaStats_def Let_def stats_of_def sol_try_def sol_balance_step_def)
  have btc2: "stats_of (fetchBTCStats bnet clk cache a)
            = Some ((initial_stats clk)
                \<lparr>balance := (stat_or0 funded_txo_sum (chain_stats data)
                               + stat_or0 funded_txo_sum (mempool_stats data)
                             - (stat_or0 spent_txo_sum (chain_stats data)
                               + stat_or0 spent_txo_sum (mempool_stats data))) / 100000000,
                 txCount := stat_or0 tx_count (chain_stats data)
                              + stat_or0 tx_count (mempool_stats data)\<rparr>)"
    if "isValidAddress a BTC" "btc_summary bnet = Response True (Some data)" "failed (btc_txs bnet)"
    using that by (simp add: fetchBTCStats_def Let_def stats_of_def btc_try_txs_failed)
  have evm2: "stats_of (fetchEVMStats js enet clk cache a c)
            = Some ((initial_stats clk)
                \<lparr>balance := parseFloat js (bal_result balData) / 1000000000000000000\<rparr>)"
    if "isValidAddress a c" "evm_balance enet = Response True (Some balData)"
      "bal_status balData = ''1''" "failed (evm_latest enet)" "failed (evm_first enet)"
    using that by (simp add: fetchEVMStats_def Let_def stats_of_def evm_try_balance_only)
  have sol2: "stats_of (fetchSolanaStats snet clk cache a)
            = Some ((initial_stats clk)
                \<lparr>balance := (case sol_result solData of
                               None \<Rightarrow> 0
                             | Some r \<Rightarrow> num_or0 (sol_value r)) / 1000000000\<rparr>)"
    if "isValidAddress a SOL" "sol_balance snet = Response True (Some solData)"
      "failed (sol_sigs snet)" "failed (sol_tokens snet)"
    using that by (simp add: fetchSolanaStats_def Let_def stats_of_def sol_try_balance_only)
  have ret: "\<exists>st. fetchBTCStats bnet clk cache a = Inr st"
    "\<exists>st. fetchEVMStats js enet clk cache a c = Inr st"
    "\<exists>st. fetchSolanaStats snet clk cache a = Inr st"
    by (simp_all add: fetchBTCStats_def fetchEVMStats_def fetchSolanaStats_def Let_def)
  have init: "balance (initial_stats clk) = 0 \<and> txCount (initial_stats clk) = 0 \<and>
    tokens (initial_stats clk) = [] \<and> latestTransaction (initial_stats clk) = None"
    by (simp add: initial_stats_def)
  show ?thesis using btc evm sol evm1 sol1 btc2 evm2 sol2 ret init by blast
qed

theorem fetchers_return_stats_witness:
  "stats_of (fetchBTCStats btc_net_down example_clock Map.empty example_btc_address)
     = Some (initial_stats example_clock) \<and>
   stats_of (fetchEVMStats decimal_js evm_net_down example_clock Map.empty example_evm_address ETH)
     = Some (initial_stats example_clock) \<and>
   stats_of (fetchSolanaStats sol_net_down example_clock Map.empty example_btc_address)
     = Some (initial_stats example_clock) \<and>
   stats_of (fetchBTCStats btc_net_self_transfer example_clock Map.empty no_address)
     = Some (initial_stats example_clock) \<and>
   stats_of (fetchEVMStats decimal_js evm_net_balance_only example_clock Map.empty no_address ETH)
     = Some (initial_stats example_clock) \<and>
   stats_of (fetchSolanaStats sol_net_one_signature example_clock Map.empty no_address)
     = Some (initial_stats example_clock) \<and>
   stats_of (fetchEVMStats decimal_js evm_net_balance_rejected example_clock Map.empty
               example_evm_address ETH)
     = Some (initial_stats example_clock) \<and>
   stats_of (fetchSolanaStats sol_net_balance_rejected example_clock Map.empty
               example_sol_address)
     = Some (initial_stats example_clock) \<and>
   stats_of (fetchBTCStats btc_net_txs_fail example_clock Map.empty example_btc_address)
     = Some ((initial_stats example_clock)\<lparr>balance := 1, txCount := 3\<rparr>) \<and>
   stats_of (fetchEVMStats decimal_js evm_net_balance_only example_clock Map.empty
               example_evm_address ETH)
     = Some ((initial_stats example_clock)\<lparr>balance := 2\<rparr>) \<and>
   stats_of (fetchSolanaStats sol_net_balance_only example_clock Map.empty example_btc_address)
     = Some ((initial_stats example_clock)\<lparr>balance := 2\<rparr>)"
  using fetchers_return_stats
    [where a = example_btc_address and bnet = btc_net_down and snet = sol_net_down
       and clk = example_clock and cache = Map.empty]
    fetchers_return_stats
    [where a = example_evm_address and c = ETH and enet = evm_net_down and js = decimal_js
       and clk = example_clock and cache = Map.empty]
    fetchers_return_stats
    [where a = no_address and c = ETH and bnet = btc_net_self_transfer
       and enet = evm_net_balance_only and snet = sol_net_one_signature and js = decimal_js
       and clk = example_clock and cache = Map.empty]
    fetchers_return_stats
    [where a = example_evm_address and c = ETH and enet = evm_net_balance_rejected
       and js = decimal_js and clk = example_clock and cache = Map.empty]
    fetchers_return_stats
    [where a = example_sol_address and snet = sol_net_balance_rejected
       and clk = example_clock and cache = Map.empty]
    fetchers_return_stats
    [where a = example_btc_address and bnet = btc_net_txs_fail and data = btc_summary_3_tx
       and snet = sol_net_balance_only
       and solData = "\<lparr>sol_result = Some \<lparr>sol_value = Some 2000000000\<rparr>\<rparr>"
       and clk = example_clock and cache = Map.empty]
    fetchers_return_stats
    [where a = example_evm_address and c = ETH and enet = evm_net_balance_only
       and balData = "\<lparr>bal_status = ''1'', bal_result = ''2000000000000000000''\<rparr>"
       and js = decimal_js and clk = example_clock and cache = Map.empty]
  by (simp add: failed_def btc_net_down_def evm_net_down_def sol_net_down_def
        example_btc_address_valid example_evm_address_valid example_btc_address_valid_sol
        no_address_invalid evm_net_balance_rejected_def sol_net_balance_rejected_def
        btc_net_txs_fail_def btc_summary_3_tx_def stat_or0_def num_or0_def
        evm_net_balance_only_def sol_net_balance_only_def decimal_js_def decimal_def)

section \<open>Theorems: fetchWalletStats\<close>

declare history_loop.simps [simp del]

lemma iso_date_shift: "iso_date (t - 86400000 * int j) = t div 86400000 - int j"
proof -
  have "(t + 86400000 * (- int j)) div 86400000 = - int j + t div 86400000"
    by (rule div_mult_self2) simp
  then show ?thesis by (simp add: iso_date_def)
qed

lemma history_loop_dates:
  "map date (history_loop w days i v h) =
     rev (map (\<lambda>j. loop_now w j div 86400000 - int j) [i..<days]) @ map date h"
proof (induction w days i v h rule: history_loop.induct)
  case (1 w days i v h)
  show ?case
  proof (cases "i < days")
    case True
    then show ?thesis
      using 1[OF True]
      by (subst history_loop.simps) (simp add: upt_conv_Cons iso_date_shift)
  next
    case False
    then show ?thesis by (subst history_loop.simps) simp
  qed
qed

lemma history_loop_length: "length (history_loop w days i v h) = (days - i) + length h"
  using arg_cong[OF history_loop_dates[of w days i v h], of length] by simp

lemma set_last_value_dates:
  "h \<noteq> [] \<Longrightarrow> \<exists>h'. set_last_value h v = Inr h' \<and> length h' = length h \<and>
     map date h' = map date h \<and> hvalue (last h') = v"
  by (simp add: set_last_value_def map_update last_conv_nth list_update_same_conv)

lemma fetcher_returns:
  "\<exists>stats cache'.
     (if c = BTC then fetchBTCStats (w_btc w) (w_clock w) cache a
      else if c = SOL then fetchSolanaStats (w_sol w) (w_clock w) cache a
      else fetchEVMStats (w_js w) (w_evm w) (w_clock w) cache a c) = Inr (stats, cache')"
  by (simp add: fetchBTCStats_def fetchEVMStats_def fetchSolanaStats_def Let_def)

lemma fetchWalletStats_history:
  "\<exists>st cache'. fetchWalletStats w cache a c = Inr (st, cache') \<and>
     length (history st) = 365 \<and>
     map date (history st) = rev (map (\<lambda>j. loop_now w j div 86400000 - int j) [0..<365]) \<and>
     hvalue (last (history st)) = balance st * cached_price cache' (getCoingeckoId c) \<and>
     isSimulatedHistory st = Some True"
proof -
  obtain stats cache' where f:
    "(if c = BTC then fetchBTCStats (w_btc w) (w_clock w) cache a
      else if c = SOL then fetchSolanaStats (w_sol w) (w_clock w) cache a
      else fetchEVMStats (w_js w) (w_evm w) (w_clock w) cache a c) = Inr (stats, cache')"
    using fetcher_returns by blast
  define cur where "cur = balance stats * cached_price cache' (getCoingeckoId c)"
  define h where "h = history_loop w 365 0 cur []"
  have len: "length h = 365" by (simp add: h_def history_loop_length)
  then have "h \<noteq> []" by auto
  then obtain h' where h': "set_last_value h cur = Inr h'" "length h' = length h"
    "map date h' = map date h" "hvalue (last h') = cur"
    using set_last_value_dates by blast
  have "fetchWalletStats w cache a c =
          Inr (stats\<lparr>history := h', isSimulatedHistory := Some True\<rparr>, cache')"
    using f h'(1) by (simp add: fetchWalletStats_def Let_def cur_def h_def)
  moreover have "map date h' = rev (map (\<lambda>j. loop_now w j div 86400000 - int j) [0..<365])"
    using h'(3) by (simp add: h_def history_loop_dates)
  ultimately show ?thesis using h'(2,4) len by (simp add: cur_def)
qed

lemma fetchWalletStats_date_nth:
  assumes "fetchWalletStats w cache a c = Inr (st, cache')" "i < 365"
  shows "date (history st ! (364 - i)) = loop_now w i div 86400000 - int i"
proof -
  from fetchWalletStats_history[of w cache a c] assms(1)
  have d: "map date (history st) = rev (map (\<lambda>j. loop_now w j div 86400000 - int j) [0..<365])"
    and len: "length (history st) = 365" by auto
  have "date (history st ! (364 - i)) = map date (history st) ! (364 - i)"
    using len assms(2) by simp
  also have "\<dots> = map (\<lambda>j. loop_now w j div 86400000 - int j) [0..<365] ! i"
    using assms(2) by (simp add: d rev_nth)
  also have "\<dots> = loop_now w i div 86400000 - int i"
    using assms(2) by simp
  finally show ?thesis .
qed

lemma fetchWalletStats_dates_same_day:
  assumes "fetchWalletStats w cache a c = Inr (st, cache')"
    and "\<forall>j<365. loop_now w j div 86400000 = d"
    and "k < 364"
  shows "date (history st ! Suc k) = date (history st ! k) + 1"
proof -
  have a: "date (history st ! (364 - (363 - k))) = d - int (363 - k)"
    using fetchWalletStats_date_nth[OF assms(1), of "363 - k"] assms(2,3) by simp
  have b: "date (history st ! (364 - (364 - k))) = d - int (364 - k)"
    using fetchWalletStats_date_nth[OF assms(1), of "364 - k"] assms(2,3) by simp
  have "364 - (363 - k) = Suc k" "364 - (364 - k) = k" using assms(3) by auto
  then show ?thesis using a b assms(3) by simp
qed

text \<open>
  Claim C1 holds in part for every input (lemma \<open>fetchWalletStats_history\<close>): the call
  returns, the history has 365 points, the last one has the value balance times cached
  price, and the flag is set. The dates are one day apart when all readings of the clock
  in the loop fall on one UTC day (lemma \<open>fetchWalletStats_dates_same_day\<close>). The loop
  reads the clock anew in every iteration, though: the date of the point of iteration \<open>i\<close>
  is the day of that reading minus \<open>i\<close> days. When midnight passes between the first two
  iterations, the last two points carry the same date, here day 19675 (2023-11-14), and
  the 365 points cover 364 days.
\<close>

theorem fetchWalletStats_repeats_date_across_midnight:
  "map_option (\<lambda>st. (length (history st), date (history st ! 363), date (history st ! 364)))
     (stats_of (fetchWalletStats midnight_world Map.empty example_btc_address BTC))
     = Some (365, 19675, 19675)"
proof -
  obtain st cache' where r:
    "fetchWalletStats midnight_world Map.empty example_btc_address BTC = Inr (st, cache')"
    "length (history st) = 365"
    using fetchWalletStats_history[of midnight_world Map.empty example_btc_address BTC] by blast
  have "date (history st ! (364 - 0)) = 19675"
    using fetchWalletStats_date_nth[OF r(1), of 0] by (simp add: midnight_world_def)
  moreover have "date (history st ! (364 - 1)) = 19675"
    using fetchWalletStats_date_nth[OF r(1), of 1] by (simp add: midnight_world_def)
  ultimately show ?thesis using r by (simp add: stats_of_def)
qed

section \<open>Theorems: the profile store\<close>

text \<open>
  Claim C6, as stated, fails for a storage error whose message is empty: the error
  \<^verbatim>\<open>createProfile\<close> throws carries the text \<^verbatim>\<open>Failed to create profile\<close> instead.
\<close>

theorem createProfile_empty_message_fallback:
  "createProfile \<lparr>random36 = ''0.4fzyo82mvyr'', create_now = 1700006399000,
                   insert_row = (\<lambda>r. Settled None (Some nameless_error))\<rparr> example_fields
     = Inl (Error ''Failed to create profile'') \<and>
   Error ''Failed to create profile'' \<noteq> Error (message nameless_error)"
  by (simp add: createProfile_def nameless_error_def)

text \<open>
  Claim C6, amended. \<^verbatim>\<open>getAllProfiles\<close> and \<^verbatim>\<open>getProfileByUsername\<close> never throw; on a
  rejected query and on a storage error \<^verbatim>\<open>getAllProfiles\<close> writes a log line and returns
  the empty list. \<^verbatim>\<open>createProfile\<close> throws on a storage error: an error with the storage
  error's message, or with the text \<^verbatim>\<open>Failed to create profile\<close> when that message is
  empty; a rejected query propagates as it is.
\<close>

theorem storage_errors:
  "(\<exists>r. getAllProfiles q = Inr r) \<and>
   (\<exists>r. getProfileByUsername q1 = Inr r) \<and>
   (\<exists>lg. getAllProfiles (Failed e) = Inr ([], lg) \<and> lg \<noteq> []) \<and>
   (\<exists>lg. getAllProfiles (Settled rows (Some err)) = Inr ([], lg) \<and> lg \<noteq> []) \<and>
   (insert_row env (newProfile env p) = Settled data (Some err) \<longrightarrow>
      createProfile env p
        = Inl (Error (if message err = [] then ''Failed to create profile'' else message err))) \<and>
   (insert_row env (newProfile env p) = Failed e \<longrightarrow> createProfile env p = Inl e)"
  by (auto simp: getAllProfiles_def getAllProfiles_try_def getProfileByUsername_def
        getProfileByUsername_try_def createProfile_def
        split: Query.splits option.splits sum.splits)

theorem storage_errors_witness:
  "(\<exists>lg. getAllProfiles (Settled None (Some duplicate_error)) = Inr ([], lg) \<and> lg \<noteq> []) \<and>
   createProfile \<lparr>random36 = ''0.4fzyo82mvyr'', create_now = 1700006399000,
                   insert_row = (\<lambda>r. Settled None (Some duplicate_error))\<rparr> example_fields
     = Inl (Error ''duplicate key value violates unique constraint'')"
  using storage_errors
    [of "Settled None (Some duplicate_error)" "Settled None (Some duplicate_error)"
        "Error ''x''" None duplicate_error
        "\<lparr>random36 = ''0.4fzyo82mvyr'', create_now = 1700006399000,
          insert_row = (\<lambda>r. Settled None (Some duplicate_error))\<rparr>" example_fields None]
  by (simp add: duplicate_error_def)

text \<open>
  Claim C9, as stated, fails: when \<^verbatim>\<open>Math.random()\<close> is 0, its base-36 text is \<^verbatim>\<open>0\<close> and
  the id is empty; and two draws whose base-36 texts agree in the nine characters after
  \<^verbatim>\<open>0.\<close> give the same id.
\<close>

theorem createProfile_empty_or_equal_ids:
  "map_option profile_id
     (created (createProfile \<lparr>random36 = ''0'', create_now = 1700006399000,
                               insert_row = echo_store\<rparr> example_fields)) = Some [] \<and>
   map_option profile_id
     (created (createProfile \<lparr>random36 = ''0.4fzyo82mvyr'', create_now = 1700006399000,
                               insert_row = echo_store\<rparr> example_fields)) = Some ''4fzyo82mv'' \<and>
   map_option profile_id
     (created (createProfile \<lparr>random36 = ''0.4fzyo82mvzzz'', create_now = 1700006399500,
                               insert_row = echo_store\<rparr> example_fields)) = Some ''4fzyo82mv''"
  by (simp add: createProfile_def created_def echo_store_def newProfile_def substr_def
        profile_of_row_def)

text \<open>
  Claim C9, amended. For two successful calls of \<^verbatim>\<open>createProfile\<close> to which the store
  returns the inserted row: \<^verbatim>\<open>createdAt\<close> is the call's clock reading; the id is the up to
  nine characters that follow the first two of \<^verbatim>\<open>Math.random().toString(36)\<close>; it is
  non-empty exactly when that text has more than two characters; and the two ids differ
  exactly when those segments of the two texts differ.
\<close>

theorem createProfile_id_and_time:
  assumes "createProfile env1 p1 = Inr (prof1, log1)"
    and "createProfile env2 p2 = Inr (prof2, log2)"
    and "insert_row env1 (newProfile env1 p1) = echo_store (newProfile env1 p1)"
    and "insert_row env2 (newProfile env2 p2) = echo_store (newProfile env2 p2)"
  shows "createdAt prof1 = create_now env1 \<and>
         profile_id prof1 = substr (random36 env1) 2 9 \<and>
         (profile_id prof1 \<noteq> [] \<longleftrightarrow> 2 < length (random36 env1)) \<and>
         (profile_id prof1 \<noteq> profile_id prof2 \<longleftrightarrow>
            substr (random36 env1) 2 9 \<noteq> substr (random36 env2) 2 9)"
  using assms
  by (auto simp: createProfile_def echo_store_def newProfile_def profile_of_row_def substr_def)

theorem createProfile_id_and_time_witness:
  "createdAt (profile_of_row (newProfile \<lparr>random36 = ''0.4fzyo82mvyr'', create_now = 1700006399000,
       insert_row = echo_store\<rparr> example_fields)) = 1700006399000 \<and>
   profile_id (profile_of_row (newProfile \<lparr>random36 = ''0.4fzyo82mvyr'', create_now = 1700006399000,
       insert_row = echo_store\<rparr> example_fields)) = ''4fzyo82mv'' \<and>
   profile_id (profile_of_row (newProfile \<lparr>random36 = ''0.4fzyo82mvyr'', create_now = 1700006399000,
       insert_row = echo_store\<rparr> example_fields))
     \<noteq> profile_id (profile_of_row (newProfile \<lparr>random36 = ''0.k8c1x0q2e7'', create_now = 1700006399900,
       insert_row = echo_store\<rparr> example_fields))"
  using createProfile_id_and_time
    [of "\<lparr>random36 = ''0.4fzyo82mvyr'', create_now = 1700006399000, insert_row = echo_store\<rparr>"
        example_fields
        "profile_of_row (newProfile \<lparr>random36 = ''0.4fzyo82mvyr'', create_now = 1700006399000,
           insert_row = echo_store\<rparr> example_fields)" "[]"
        "\<lparr>random36 = ''0.k8c1x0q2e7'', create_now = 1700006399900, insert_row = echo_store\<rparr>"
        example_fields
        "profile_of_row (newProfile \<lparr>random36 = ''0.k8c1x0q2e7'', create_now = 1700006399900,
           insert_row = echo_store\<rparr> example_fields)" "[]"]
  by (simp add: createProfile_def echo_store_def substr_def newProfile_def profile_of_row_def)

section \<open>Theorems: the wallet bridge\<close>

text \<open>
  Claim C7. When a provider is present and its \<^verbatim>\<open>signMessage\<close> resolves to an object whose
  \<^verbatim>\<open>signature\<close> is truthy, \<^verbatim>\<open>signSolana\<close> returns true, for every address and message: the
  signature is checked against nothing, and the result does not depend on the address.
\<close>

theorem signSolana_accepts_any_truthy_signature:
  assumes "solana_provider win = Some provider"
    and "sol_signMessage provider (encode msg) ''utf8'' = Inr (Some sm)"
    and "truthy (signed_signature sm)"
  shows "signSolana win a msg = Inr True \<and> signSolana win a' msg = signSolana win a msg"
  using assms by (simp add: signSolana_def signSolana_try_def)

theorem signSolana_accepts_any_truthy_signature_witness:
  "signSolana \<lparr>solana = None, phantom = Some \<lparr>phantom_solana = Some careless_provider\<rparr>\<rparr>
     ''11111111111111111111111111111111'' ''Sign this message'' = Inr True"
  using signSolana_accepts_any_truthy_signature
    [of "\<lparr>solana = None, phantom = Some \<lparr>phantom_solana = Some careless_provider\<rparr>\<rparr>"
        careless_provider "''Sign this message''" "\<lparr>signed_signature = Bytes []\<rparr>"
        "''11111111111111111111111111111111''"]
  by (simp add: solana_provider_def careless_provider_def)

text \<open>
  Claim C8. When the signer's \<^verbatim>\<open>signMessage\<close> succeeds (it is called once the signer is
  there and its address matches the expected one) and \<^verbatim>\<open>ethers.verifyMessage\<close> recovers
  an address that differs from the expected one, case ignored, \<^verbatim>\<open>signEVM\<close> returns false
  and does not throw.
\<close>

theorem signEVM_mismatch_returns_false:
  assumes "ethereum = Some eth"
    and "getSigner eth = Inr signer"
    and "getAddress signer = Inr signerAddress"
    and "toLowerCase signerAddress = toLowerCase a"
    and "signMessage signer msg = Inr sg"
    and "verifyMessage msg sg = Inr recoveredAddress"
    and "toLowerCase recoveredAddress \<noteq> toLowerCase a"
  shows "signEVM verifyMessage ethereum a msg = Inr False"
  using assms by (simp add: signEVM_def signEVM_try_def)

theorem signEVM_mismatch_returns_false_witness:
  "signEVM verify_other (Some \<lparr>getSigner = Inr example_signer\<rparr>)
     ''0xABCDEF0123456789abcdef0123456789ABCDEF01'' ''Sign this message'' = Inr False"
  using signEVM_mismatch_returns_false
    [of "Some \<lparr>getSigner = Inr example_signer\<rparr>" "\<lparr>getSigner = Inr example_signer\<rparr>"
        example_signer "''0xabcdef0123456789abcdef0123456789abcdef01''"
        "''0xABCDEF0123456789abcdef0123456789ABCDEF01''" "''Sign this message''" "''0xsignature''"
        verify_other "''0x1111111111111111111111111111111111111111''"]
  by (simp add: example_signer_def verify_other_def toLowerCase_def in_range_def char_of_def bit_Suc_0_iff)


end
